theory Spec2Isabelle
  imports Complex_Main "HOL-Library.Word" "HOL-Library.Sublist"
begin

section \<open>Strings and arrays of the host language\<close>

text \<open>
  A string of the source is a sequence of UTF-16 code units; the regular expressions of the
  source (written without the unicode flag) work on code units too. The Thai literals of
  the source are written out as code units. \<open>ascii\<close> turns a literal of 7-bit
  characters into such a string.
\<close>

type_synonym code_unit = "16 word"
type_synonym js_string = "code_unit list"

definition ascii :: "string \<Rightarrow> js_string" where
  "ascii s = map of_char s"

text \<open>The character class \<open>\s\<close>: white space and line terminators.\<close>

definition is_white_space :: "code_unit \<Rightarrow> bool" where
  "is_white_space c \<longleftrightarrow>
     c \<in> {0x0009, 0x000A, 0x000B, 0x000C, 0x000D, 0x0020, 0x00A0, 0x1680,
          0x2028, 0x2029, 0x202F, 0x205F, 0x3000, 0xFEFF}
     \<or> (0x2000 \<le> c \<and> c \<le> 0x200A)"

text \<open>
  \<open>text.split(/\s+/)\<close>: the pieces between the maximal runs of white space. A
  string that starts (ends) with white space gives an empty first (last) piece, and the
  empty string gives one empty piece. \<open>split_from cur s\<close> has read \<open>cur\<close> of the
  current piece and has \<open>s\<close> left to read.
\<close>

function split_from :: "js_string \<Rightarrow> js_string \<Rightarrow> js_string list" where
  "split_from cur [] = [cur]"
| "split_from cur (c # cs) =
     (if is_white_space c then cur # split_from [] (dropWhile is_white_space cs)
      else split_from (cur @ [c]) cs)"
  by pat_completeness auto
termination
  by (relation "measure (\<lambda>(cur, s). length s)")
     (auto simp: le_imp_less_Suc length_dropWhile_le)

definition split_whitespace :: "js_string \<Rightarrow> js_string list" where
  "split_whitespace s = split_from [] s"

text \<open>
  \<open>xs.slice(start, end)\<close>: a negative index counts from the end, both indices are
  clamped to the array, and an empty range gives the empty array.
\<close>

definition js_slice :: "'a list \<Rightarrow> int \<Rightarrow> int \<Rightarrow> 'a list" where
  "js_slice xs start end =
     (let len = int (length xs);
          k = (if start < 0 then max (len + start) 0 else min start len);
          final = (if end < 0 then max (len + end) 0 else min end len)
      in take (nat (final - k)) (drop (nat k) xs))"

text \<open>\<open>xs.join(sep)\<close> on an array of strings.\<close>

fun js_join :: "js_string \<Rightarrow> js_string list \<Rightarrow> js_string" where
  "js_join sep [] = []"
| "js_join sep [x] = x"
| "js_join sep (x # y # ys) = x @ sep @ js_join sep (y # ys)"

section \<open>EmbeddingService.chunkText\<close>

text \<open>
  The \<open>while\<close> loop of \<open>chunkText\<close>, with the window start \<open>i\<close> and the chunks
  pushed so far. Nothing in the source bounds the number of iterations, so the loop is a
  partial function: \<open>None\<close> is a loop that does not return. \<open>chunkSize\<close> and
  \<open>overlap\<close> are integers of either sign (fractions are not modelled).
\<close>

partial_function (option) chunk_loop ::
  "js_string list \<Rightarrow> int \<Rightarrow> int \<Rightarrow> int \<Rightarrow> js_string list \<Rightarrow> js_string list option" where
  "chunk_loop words chunkSize overlap i chunks =
     (if i < int (length words)
      then chunk_loop words chunkSize overlap (i + (chunkSize - overlap))
             (chunks @ [js_join (ascii '' '') (js_slice words i (i + chunkSize))])
      else Some chunks)"

definition chunkText :: "js_string \<Rightarrow> int \<Rightarrow> int \<Rightarrow> js_string list option" where
  "chunkText text chunkSize overlap =
     chunk_loop (split_whitespace text) chunkSize overlap 0 []"

text \<open>The defaults of the two optional parameters.\<close>

definition default_chunkSize :: int where
  "default_chunkSize = 512"

definition default_overlap :: int where
  "default_overlap = 50"

section \<open>Numbers\<close>

text \<open>
  A \<open>number\<close> of the source is an IEEE 754 binary64 value: a real that the format
  represents, an infinity or NaN. The sign of zero is not modelled. Every operation
  rounds its exact result to the nearest representable value, ties to the even
  significand, and a result of magnitude \<open>2^1024 - 2^970\<close> or more overflows to an
  infinity.
\<close>

datatype double = Finite real | PosInf | NegInf | NaN

definition round_half_even :: "real \<Rightarrow> int" where
  "round_half_even x =
     (let f = \<lfloor>x\<rfloor>; d = x - of_int f
      in if d < 1 / 2 then f else if 1 / 2 < d then f + 1 else if even f then f else f + 1)"

definition nearest64 :: "real \<Rightarrow> real" where
  "nearest64 x =
     (if x = 0 then 0
      else let e = max \<lfloor>log 2 \<bar>x\<bar>\<rfloor> (- 1022); u = 2 powr (of_int e - 52)
           in of_int (round_half_even (x / u)) * u)"

definition round64 :: "real \<Rightarrow> double" where
  "round64 x =
     (if 2 ^ 1024 - 2 ^ 970 \<le> \<bar>x\<bar> then (if 0 < x then PosInf else NegInf)
      else Finite (nearest64 x))"

fun fadd :: "double \<Rightarrow> double \<Rightarrow> double" where
  "fadd NaN y = NaN"
| "fadd x NaN = NaN"
| "fadd PosInf NegInf = NaN"
| "fadd NegInf PosInf = NaN"
| "fadd PosInf y = PosInf"
| "fadd x PosInf = PosInf"
| "fadd NegInf y = NegInf"
| "fadd x NegInf = NegInf"
| "fadd (Finite a) (Finite b) = round64 (a + b)"

fun fmul :: "double \<Rightarrow> double \<Rightarrow> double" where
  "fmul NaN y = NaN"
| "fmul x NaN = NaN"
| "fmul (Finite a) (Finite b) = round64 (a * b)"
| "fmul (Finite a) PosInf = (if a = 0 then NaN else if 0 < a then PosInf else NegInf)"
| "fmul (Finite a) NegInf = (if a = 0 then NaN else if 0 < a then NegInf else PosInf)"
| "fmul PosInf (Finite b) = (if b = 0 then NaN else if 0 < b then PosInf else NegInf)"
| "fmul NegInf (Finite b) = (if b = 0 then NaN else if 0 < b then NegInf else PosInf)"
| "fmul PosInf PosInf = PosInf"
| "fmul PosInf NegInf = NegInf"
| "fmul NegInf PosInf = NegInf"
| "fmul NegInf NegInf = PosInf"

fun fdiv :: "double \<Rightarrow> double \<Rightarrow> double" where
  "fdiv NaN y = NaN"
| "fdiv x NaN = NaN"
| "fdiv (Finite a) (Finite b) =
     (if b = 0 then (if a = 0 then NaN else if 0 < a then PosInf else NegInf)
      else round64 (a / b))"
| "fdiv (Finite a) PosInf = Finite 0"
| "fdiv (Finite a) NegInf = Finite 0"
| "fdiv PosInf (Finite b) = (if 0 \<le> b then PosInf else NegInf)"
| "fdiv NegInf (Finite b) = (if 0 \<le> b then NegInf else PosInf)"
| "fdiv PosInf PosInf = NaN"
| "fdiv PosInf NegInf = NaN"
| "fdiv NegInf PosInf = NaN"
| "fdiv NegInf NegInf = NaN"

fun fsqrt :: "double \<Rightarrow> double" where
  "fsqrt NaN = NaN"
| "fsqrt PosInf = PosInf"
| "fsqrt NegInf = NaN"
| "fsqrt (Finite a) = (if a < 0 then NaN else round64 (sqrt a))"

text \<open>
  The arithmetic a numeric routine runs on. The program runs on \<open>binary64\<close>;
  \<open>exact\<close> is the arithmetic of the real numbers, without rounding.
\<close>

record 'n arith =
  num_zero :: 'n
  num_add :: "'n \<Rightarrow> 'n \<Rightarrow> 'n"
  num_mul :: "'n \<Rightarrow> 'n \<Rightarrow> 'n"
  num_div :: "'n \<Rightarrow> 'n \<Rightarrow> 'n"
  num_sqrt :: "'n \<Rightarrow> 'n"

definition binary64 :: "double arith" where
  "binary64 = \<lparr>num_zero = Finite 0, num_add = fadd, num_mul = fmul, num_div = fdiv,
                num_sqrt = fsqrt\<rparr>"

definition exact :: "real arith" where
  "exact = \<lparr>num_zero = 0, num_add = (+), num_mul = (*), num_div = (/), num_sqrt = sqrt\<rparr>"

text \<open>
  Identifiers, indices and counts are integers far below \<open>2^53\<close>, where binary64 is
  exact; they are modelled as integers. \<open>int_to_string\<close> is their decimal form, as a
  template literal prints them.
\<close>

fun nat_to_string :: "nat \<Rightarrow> js_string" where
  "nat_to_string n =
     (if n < 10 then [of_nat (48 + n)]
      else nat_to_string (n div 10) @ [of_nat (48 + n mod 10)])"

definition int_to_string :: "int \<Rightarrow> js_string" where
  "int_to_string i = (if i < 0 then 0x2D # nat_to_string (nat (- i)) else nat_to_string (nat i))"

section \<open>Values and objects\<close>

text \<open>
  A value of type \<open>any\<close>, as far as the code meets one in the metadata of a vector: the
  numbers there are identifiers and indices. An object \<open>Record<string, any>\<close> is a map
  from property names to values.
\<close>

datatype js_value = JUndefined | JNull | JBool bool | JNumber int | JString js_string

type_synonym js_object = "js_string \<rightharpoonup> js_value"

fun truthy :: "js_value \<Rightarrow> bool" where
  "truthy JUndefined = False"
| "truthy JNull = False"
| "truthy (JBool b) = b"
| "truthy (JNumber n) = (n \<noteq> 0)"
| "truthy (JString s) = (s \<noteq> [])"

fun to_string :: "js_value \<Rightarrow> js_string" where
  "to_string JUndefined = ascii ''undefined''"
| "to_string JNull = ascii ''null''"
| "to_string (JBool b) = (if b then ascii ''true'' else ascii ''false'')"
| "to_string (JNumber n) = int_to_string n"
| "to_string (JString s) = s"

text \<open>Reading a property: a missing property reads as \<open>undefined\<close>.\<close>

definition get_property :: "js_object \<Rightarrow> js_string \<Rightarrow> js_value" where
  "get_property obj k = (case obj k of None \<Rightarrow> JUndefined | Some v \<Rightarrow> v)"

declare nat_to_string.simps [simp del]

section \<open>EmbeddingService.cosineSimilarity\<close>

datatype error =
    EmbeddingFailed
  | BatchEmbeddingFailed
  | DimensionMismatch
  | IndexingFailed
  | QueryFailed

text \<open>
  The loop adds the three sums up index by index; the two arrays have the same length
  when it runs.
\<close>

fun cosine_sums :: "'n arith \<Rightarrow> 'n list \<Rightarrow> 'n list \<Rightarrow> 'n \<times> 'n \<times> 'n \<Rightarrow> 'n \<times> 'n \<times> 'n" where
  "cosine_sums A (x # xs) (y # ys) (dotProduct, norm1, norm2) =
     cosine_sums A xs ys
       (num_add A dotProduct (num_mul A x y),
        num_add A norm1 (num_mul A x x),
        num_add A norm2 (num_mul A y y))"
| "cosine_sums A xs ys acc = acc"

definition cosineSimilarity :: "'n arith \<Rightarrow> 'n list \<Rightarrow> 'n list \<Rightarrow> error + 'n" where
  "cosineSimilarity A embedding1 embedding2 =
     (if length embedding1 \<noteq> length embedding2 then Inl DimensionMismatch
      else case cosine_sums A embedding1 embedding2 (num_zero A, num_zero A, num_zero A) of
             (dotProduct, norm1, norm2) \<Rightarrow>
               Inr (num_div A dotProduct (num_mul A (num_sqrt A norm1) (num_sqrt A norm2))))"

section \<open>The collaborators\<close>

text \<open>Rows and results, with the fields that the code reads or writes.\<close>

record embedding_result =
  embedding :: "double list"
  dimensions :: nat

record vector_entry =
  entry_id :: js_string
  entry_values :: "double list"
  entry_metadata :: js_object

record vector_metadata_row =
  document_id :: int
  chunk_index :: nat
  chunk_text :: js_string
  vector_id :: js_string

record vector_search_result =
  match_id :: js_string
  match_score :: double
  match_metadata :: "js_object option"

record document =
  filename :: js_string

record project =
  project_name :: js_string
  total_estimated_cost :: "double option"
  total_actual_cost :: "double option"

record production_cost =
  cost_per_unit :: double

record transportation_cost =
  transportation_total_cost :: double

record installation_cost =
  installation_total_cost :: double

datatype chat_result = Raises | Reply "js_string option"

text \<open>
  The services outside the program answer as they like; \<open>env\<close> fixes their answers.
  A call that throws, or answers with something that has not the shape the code reads,
  is \<open>None\<close>, \<open>False\<close> or \<open>Raises\<close>. The chat model receives
  the two texts that are put into the fixed system prompt, and the user's message.
  \<open>number_toFixed2\<close> and \<open>number_toString\<close> are the number formats of the host
  language, \<open>x.toFixed(2)\<close> and the one of a template literal.
\<close>

record env =
  ai_embeddings :: "js_string list \<Rightarrow> double list list option"
  ai_chat :: "js_string \<Rightarrow> js_string \<Rightarrow> js_string \<Rightarrow> chat_result"
  vectorize_insert :: "vector_entry list \<Rightarrow> bool"
  vectorize_query :: "double list \<Rightarrow> int \<Rightarrow> vector_search_result list option"
  db_createVectorMetadata :: "vector_metadata_row \<Rightarrow> bool"
  db_updateDocumentVectorStatus :: "int \<Rightarrow> js_string \<Rightarrow> bool"
  db_getDocument :: "js_value \<Rightarrow> document option option"
  db_getProductionCosts :: "production_cost list option"
  db_getProject :: "int \<Rightarrow> project option option"
  db_getTransportationCosts :: "int \<Rightarrow> transportation_cost list option"
  db_getInstallationCosts :: "int \<Rightarrow> installation_cost list option"
  number_toFixed2 :: "double \<Rightarrow> js_string"
  number_toString :: "double \<Rightarrow> js_string"

text \<open>
  What the program has written: to the vector index and to the two tables. The lines it
  prints to the console are not modelled.
\<close>

record store =
  vector_index :: "vector_entry list"
  vector_metadata :: "vector_metadata_row list"
  document_vector_status :: "(int \<times> js_string) list"

section \<open>EmbeddingService: the two calls of the embedding model\<close>

definition generateEmbedding :: "env \<Rightarrow> js_string \<Rightarrow> error + embedding_result" where
  "generateEmbedding env text =
     (case ai_embeddings env [text] of
        None \<Rightarrow> Inl EmbeddingFailed
      | Some [] \<Rightarrow> Inl EmbeddingFailed
      | Some (e # es) \<Rightarrow> Inr \<lparr>embedding = e, dimensions = length e\<rparr>)"

definition generateBatchEmbeddings :: "env \<Rightarrow> js_string list \<Rightarrow> error + embedding_result list" where
  "generateBatchEmbeddings env texts =
     (case ai_embeddings env texts of
        None \<Rightarrow> Inl BatchEmbeddingFailed
      | Some embeddings \<Rightarrow> Inr (map (\<lambda>e. \<lparr>embedding = e, dimensions = length e\<rparr>) embeddings))"

section \<open>RAGService.indexDocument\<close>

text \<open>The key of a chunk's vector: \<open>doc_${documentId}_chunk_${index}\<close>.\<close>

definition chunk_vector_id :: "int \<Rightarrow> nat \<Rightarrow> js_string" where
  "chunk_vector_id documentId index =
     ascii ''doc_'' @ int_to_string documentId @ ascii ''_chunk_'' @ nat_to_string index"

text \<open>
  The metadata of a chunk's vector: the three properties of the chunk, then the spread
  of the caller's metadata, whose properties replace those of the same name.
\<close>

definition chunk_metadata :: "int \<Rightarrow> nat \<Rightarrow> js_string \<Rightarrow> js_object \<Rightarrow> js_object" where
  "chunk_metadata documentId index chunk metadata =
     [ascii ''document_id'' \<mapsto> JNumber documentId,
      ascii ''chunk_index'' \<mapsto> JNumber (int index),
      ascii ''chunk_text'' \<mapsto> JString chunk] ++ metadata"

text \<open>
  \<open>chunks.map((chunk, index) => ...)\<close>, from \<open>index\<close> on. Reading
  \<open>embeddings[index].embedding\<close> beyond the end of \<open>embeddings\<close> throws.
\<close>

fun build_vectors ::
  "int \<Rightarrow> js_object \<Rightarrow> embedding_result list \<Rightarrow> nat \<Rightarrow> js_string list \<Rightarrow> vector_entry list option" where
  "build_vectors documentId metadata embeddings index [] = Some []"
| "build_vectors documentId metadata embeddings index (chunk # chunks) =
     (if index < length embeddings
      then (case build_vectors documentId metadata embeddings (Suc index) chunks of
              None \<Rightarrow> None
            | Some vectors \<Rightarrow>
                Some (\<lparr>entry_id = chunk_vector_id documentId index,
                       entry_values = embedding (embeddings ! index),
                       entry_metadata = chunk_metadata documentId index chunk metadata\<rparr>
                      # vectors))
      else None)"

definition createVectorMetadata :: "env \<Rightarrow> vector_metadata_row \<Rightarrow> store \<Rightarrow> bool \<times> store" where
  "createVectorMetadata env row s =
     (if db_createVectorMetadata env row
      then (True, s\<lparr>vector_metadata := vector_metadata s @ [row]\<rparr>)
      else (False, s))"

text \<open>
  The \<open>for\<close> loop that stores one row per chunk, from index \<open>i\<close> on; it stops at the
  first row that the database refuses. The result says whether all rows were stored.
\<close>

function store_chunk_rows :: "env \<Rightarrow> int \<Rightarrow> js_string list \<Rightarrow> nat \<Rightarrow> store \<Rightarrow> bool \<times> store" where
  "store_chunk_rows env documentId chunks i s =
     (if i < length chunks
      then (case createVectorMetadata env
                   \<lparr>document_id = documentId, chunk_index = i, chunk_text = chunks ! i,
                    vector_id = chunk_vector_id documentId i\<rparr> s of
              (True, s') \<Rightarrow> store_chunk_rows env documentId chunks (Suc i) s'
            | (False, s') \<Rightarrow> (False, s'))
      else (True, s))"
  by pat_completeness auto
termination
  by (relation "measure (\<lambda>(env, documentId, chunks, i, s). length chunks - i)") auto

declare store_chunk_rows.simps [simp del]

definition updateDocumentVectorStatus :: "env \<Rightarrow> int \<Rightarrow> js_string \<Rightarrow> store \<Rightarrow> bool \<times> store" where
  "updateDocumentVectorStatus env documentId vectorId s =
     (if db_updateDocumentVectorStatus env documentId vectorId
      then (True, s\<lparr>document_vector_status := document_vector_status s @ [(documentId, vectorId)]\<rparr>)
      else (False, s))"

text \<open>
  \<open>indexDocument\<close> returns the outcome and the store as the call leaves it: what was
  written before a failure stays written. Every failure inside becomes
  \<open>IndexingFailed\<close>. The outer \<open>option\<close> is the chunking loop: \<open>None\<close> if it does
  not return.
\<close>

definition indexDocument ::
  "env \<Rightarrow> int \<Rightarrow> js_string \<Rightarrow> js_object \<Rightarrow> store \<Rightarrow> ((error + unit) \<times> store) option" where
  "indexDocument env documentId documentText metadata s =
     (case chunkText documentText default_chunkSize default_overlap of
        None \<Rightarrow> None
      | Some chunks \<Rightarrow>
          Some
           (case generateBatchEmbeddings env chunks of
              Inl e \<Rightarrow> (Inl IndexingFailed, s)
            | Inr embeddings \<Rightarrow>
               (case build_vectors documentId metadata embeddings 0 chunks of
                  None \<Rightarrow> (Inl IndexingFailed, s)
                | Some vectors \<Rightarrow>
                   if \<not> vectorize_insert env vectors then (Inl IndexingFailed, s)
                   else
                    (case store_chunk_rows env documentId chunks 0
                            (s\<lparr>vector_index := vector_index s @ vectors\<rparr>) of
                       (False, s') \<Rightarrow> (Inl IndexingFailed, s')
                     | (True, s') \<Rightarrow>
                        (case updateDocumentVectorStatus env documentId
                                (ascii ''doc_'' @ int_to_string documentId) s' of
                           (False, s'') \<Rightarrow> (Inl IndexingFailed, s'')
                         | (True, s'') \<Rightarrow> (Inr (), s''))))))"

section \<open>RAGService.query and its parts\<close>

record rag_query_input =
  input_query :: js_string
  input_project_id :: "int option"
  input_topK :: "int option"

text \<open>
  A source as \<open>retrieveSourceContext\<close> builds it: the properties of the match's
  metadata, and over them \<open>filename\<close> (undefined when the document is not found) and
  \<open>score\<close>.
\<close>

record source =
  src_metadata :: js_object
  src_filename :: "js_string option"
  src_score :: double

record response_source =
  source_document :: js_string
  source_relevance :: double
  source_chunk_text :: js_value

record cost_breakdown =
  material :: "double option"
  labor :: "double option"
  overhead :: "double option"
  total :: "double option"

record rag_response =
  response_answer :: js_string
  response_sources :: "response_source list"
  response_cost_breakdown :: "cost_breakdown option"

text \<open>\<open>metadata?.document_id\<close> of a match.\<close>

definition match_document_id :: "vector_search_result \<Rightarrow> js_value" where
  "match_document_id m =
     (case match_metadata m of None \<Rightarrow> JUndefined | Some md \<Rightarrow> get_property md (ascii ''document_id''))"

text \<open>
  The source pushed for a match, given the document that the lookup found (or not).
\<close>

definition source_of_match :: "vector_search_result \<Rightarrow> document option \<Rightarrow> source" where
  "source_of_match m doc =
     \<lparr>src_metadata = (case match_metadata m of None \<Rightarrow> Map.empty | Some md \<Rightarrow> md),
      src_filename = map_option filename doc,
      src_score = match_score m\<rparr>"

text \<open>
  The loop of \<open>retrieveSourceContext\<close> over the matches, with the sources pushed so
  far (\<open>found\<close>). A lookup of the document that throws ends it.
\<close>

fun retrieve_sources :: "env \<Rightarrow> vector_search_result list \<Rightarrow> source list \<Rightarrow> source list option" where
  "retrieve_sources env [] found = Some found"
| "retrieve_sources env (m # matches) found =
     (if truthy (match_document_id m)
      then (case db_getDocument env (match_document_id m) of
              None \<Rightarrow> None
            | Some doc \<Rightarrow>
                retrieve_sources env matches (found @ [source_of_match m doc]))
      else retrieve_sources env matches found)"

definition retrieveSourceContext :: "env \<Rightarrow> vector_search_result list \<Rightarrow> source list option" where
  "retrieveSourceContext env matches = retrieve_sources env matches []"

subsection \<open>getCostContext\<close>

definition no_cost_data_text :: js_string where
  "no_cost_data_text =
     [0x0E44, 0x0E21, 0x0E48, 0x0E21, 0x0E35, 0x0E02, 0x0E49, 0x0E2D, 0x0E21, 0x0E39, 0x0E25,
      0x0E15, 0x0E49, 0x0E19, 0x0E17, 0x0E38, 0x0E19, 0x0E43, 0x0E19, 0x0E23, 0x0E30, 0x0E1A,
      0x0E1A]"

definition baht_line_end :: js_string where
  "baht_line_end = [0x0020, 0x0E1A, 0x0E32, 0x0E17, 0x000A]"

definition production_label :: js_string where
  "production_label =
     [0x0E15, 0x0E49, 0x0E19, 0x0E17, 0x0E38, 0x0E19, 0x0E01, 0x0E32, 0x0E23, 0x0E1C, 0x0E25,
      0x0E34, 0x0E15, 0x0E40, 0x0E09, 0x0E25, 0x0E35, 0x0E48, 0x0E22, 0x0E15, 0x0E48, 0x0E2D,
      0x0E2B, 0x0E19, 0x0E48, 0x0E27, 0x0E22, 0x003A, 0x0020]"

definition project_label :: js_string where
  "project_label = [0x000A, 0x0E42, 0x0E1B, 0x0E23, 0x0E40, 0x0E08, 0x0E04, 0x003A, 0x0020]"

definition estimated_label :: js_string where
  "estimated_label =
     [0x0E15, 0x0E49, 0x0E19, 0x0E17, 0x0E38, 0x0E19, 0x0E1B, 0x0E23, 0x0E30, 0x0E21, 0x0E32,
      0x0E13, 0x0E01, 0x0E32, 0x0E23, 0x003A, 0x0020]"

definition actual_label :: js_string where
  "actual_label =
     [0x0E15, 0x0E49, 0x0E19, 0x0E17, 0x0E38, 0x0E19, 0x0E08, 0x0E23, 0x0E34, 0x0E07, 0x003A,
      0x0020]"

definition transportation_label :: js_string where
  "transportation_label =
     [0x0E15, 0x0E49, 0x0E19, 0x0E17, 0x0E38, 0x0E19, 0x0E02, 0x0E19, 0x0E2A, 0x0E48, 0x0E07,
      0x0E40, 0x0E09, 0x0E25, 0x0E35, 0x0E48, 0x0E22, 0x003A, 0x0020]"

definition installation_label :: js_string where
  "installation_label =
     [0x0E15, 0x0E49, 0x0E19, 0x0E17, 0x0E38, 0x0E19, 0x0E15, 0x0E34, 0x0E14, 0x0E15, 0x0E31,
      0x0E49, 0x0E07, 0x0E40, 0x0E09, 0x0E25, 0x0E35, 0x0E48, 0x0E22, 0x003A, 0x0020]"

text \<open>\<open>xs.reduce((sum, c) => sum + c, 0) / xs.length\<close>.\<close>

definition average :: "double list \<Rightarrow> double" where
  "average xs = fdiv (foldl fadd (Finite 0) xs) (Finite (real (length xs)))"

text \<open>\<open>x || 0\<close> for an optional number.\<close>

definition or_zero :: "double option \<Rightarrow> double" where
  "or_zero x =
     (case x of None \<Rightarrow> Finite 0
      | Some v \<Rightarrow> if v = Finite 0 \<or> v = NaN then Finite 0 else v)"

definition average_line :: "env \<Rightarrow> js_string \<Rightarrow> double list \<Rightarrow> js_string" where
  "average_line env label costs =
     (if costs \<noteq> [] then label @ number_toFixed2 env (average costs) @ baht_line_end else [])"

definition project_lines :: "env \<Rightarrow> project \<Rightarrow> js_string" where
  "project_lines env p =
     project_label @ project_name p @ [0x000A] @
     estimated_label @ number_toString env (or_zero (total_estimated_cost p)) @ baht_line_end @
     actual_label @ number_toString env (or_zero (total_actual_cost p)) @ baht_line_end"

text \<open>
  The \<open>try\<close> block of \<open>getCostContext\<close>: the value of \<open>context\<close> when the block is
  left, at its end or at the first lookup that throws.
\<close>

definition cost_context_tried :: "env \<Rightarrow> int option \<Rightarrow> js_string" where
  "cost_context_tried env projectId =
     (case db_getProductionCosts env of
        None \<Rightarrow> []
      | Some productionCosts \<Rightarrow>
         (let context1 = average_line env production_label (map cost_per_unit productionCosts)
          in case projectId of
               None \<Rightarrow> context1
             | Some pid \<Rightarrow>
                if pid = 0 then context1
                else
                 (case db_getProject env pid of
                    None \<Rightarrow> context1
                  | Some found \<Rightarrow>
                     (let context2 =
                            context1 @ (case found of None \<Rightarrow> [] | Some p \<Rightarrow> project_lines env p)
                      in case db_getTransportationCosts env pid of
                           None \<Rightarrow> context2
                         | Some transportCosts \<Rightarrow>
                            (let context3 =
                                   context2 @
                                   average_line env transportation_label
                                     (map transportation_total_cost transportCosts)
                             in case db_getInstallationCosts env pid of
                                  None \<Rightarrow> context3
                                | Some installCosts \<Rightarrow>
                                   context3 @
                                   average_line env installation_label
                                     (map installation_total_cost installCosts))))))"

text \<open>\<open>context || '...'\<close>: the fixed text stands in for the empty context.\<close>

definition context_or_no_data :: "js_string \<Rightarrow> js_string" where
  "context_or_no_data context = (if context = [] then no_cost_data_text else context)"

definition getCostContext :: "env \<Rightarrow> int option \<Rightarrow> js_string" where
  "getCostContext env projectId = context_or_no_data (cost_context_tried env projectId)"

subsection \<open>generateAnswer\<close>

definition generation_error_text :: js_string where
  "generation_error_text =
     [0x0E40, 0x0E01, 0x0E34, 0x0E14, 0x0E02, 0x0E49, 0x0E2D, 0x0E1C, 0x0E34, 0x0E14, 0x0E1E,
      0x0E25, 0x0E32, 0x0E14, 0x0E43, 0x0E19, 0x0E01, 0x0E32, 0x0E23, 0x0E2A, 0x0E23, 0x0E49,
      0x0E32, 0x0E07, 0x0E04, 0x0E33, 0x0E15, 0x0E2D, 0x0E1A, 0x0020, 0x0E01, 0x0E23, 0x0E38,
      0x0E13, 0x0E32, 0x0E25, 0x0E2D, 0x0E07, 0x0E43, 0x0E2B, 0x0E21, 0x0E48, 0x0E2D, 0x0E35,
      0x0E01, 0x0E04, 0x0E23, 0x0E31, 0x0E49, 0x0E07]"

definition no_answer_text :: js_string where
  "no_answer_text =
     [0x0E44, 0x0E21, 0x0E48, 0x0E2A, 0x0E32, 0x0E21, 0x0E32, 0x0E23, 0x0E16, 0x0E2A, 0x0E23,
      0x0E49, 0x0E32, 0x0E07, 0x0E04, 0x0E33, 0x0E15, 0x0E2D, 0x0E1A, 0x0E44, 0x0E14, 0x0E49]"

definition document_label :: js_string where
  "document_label = [0x005B, 0x0E40, 0x0E2D, 0x0E01, 0x0E2A, 0x0E32, 0x0E23, 0x0020]"

text \<open>\<open>s.chunk_text\<close> of a source.\<close>

definition src_chunk_text :: "source \<Rightarrow> js_value" where
  "src_chunk_text s = get_property (src_metadata s) (ascii ''chunk_text'')"

text \<open>The numbered excerpts, from number \<open>i + 1\<close> on.\<close>

fun document_excerpts :: "nat \<Rightarrow> source list \<Rightarrow> js_string list" where
  "document_excerpts i [] = []"
| "document_excerpts i (s # ss) =
     (document_label @ nat_to_string (i + 1) @ ascii '']: '' @ to_string (src_chunk_text s))
     # document_excerpts (Suc i) ss"

definition generateAnswer :: "env \<Rightarrow> js_string \<Rightarrow> source list \<Rightarrow> js_string \<Rightarrow> js_string" where
  "generateAnswer env question found costContext =
     (let documentContext = js_join [0x000A, 0x000A] (document_excerpts 0 found)
      in case ai_chat env documentContext costContext question of
           Raises \<Rightarrow> generation_error_text
         | Reply None \<Rightarrow> no_answer_text
         | Reply (Some reply) \<Rightarrow> if reply = [] then no_answer_text else reply)"

subsection \<open>extractCostBreakdown\<close>

definition material_label :: js_string where
  "material_label = [0x0E27, 0x0E31, 0x0E15, 0x0E16, 0x0E38, 0x0E14, 0x0E34, 0x0E1A]"

definition labor_label :: js_string where
  "labor_label = [0x0E04, 0x0E48, 0x0E32, 0x0E41, 0x0E23, 0x0E07]"

definition overhead_label :: js_string where
  "overhead_label = [0x0E04, 0x0E48, 0x0E32, 0x0E42, 0x0E2A, 0x0E2B, 0x0E38, 0x0E49, 0x0E22]"

definition total_label :: js_string where
  "total_label = [0x0E23, 0x0E27, 0x0E21]"

text \<open>The two character classes \<open>[:\s]\<close> and \<open>[0-9,]\<close>.\<close>

definition is_separator :: "code_unit \<Rightarrow> bool" where
  "is_separator c \<longleftrightarrow> c = 0x003A \<or> is_white_space c"

definition is_amount_char :: "code_unit \<Rightarrow> bool" where
  "is_amount_char c \<longleftrightarrow> (0x0030 \<le> c \<and> c \<le> 0x0039) \<or> c = 0x002C"

text \<open>
  The pattern \<open>label[:\s]+([0-9,]+)\<close> tried at the start of \<open>s\<close>: the label, one or
  more separators, one or more amount characters; the result is the group. The two
  classes are disjoint, so the longest runs are the only way to match.
\<close>

definition match_here :: "js_string \<Rightarrow> js_string \<Rightarrow> js_string option" where
  "match_here label s =
     (if take (length label) s = label
      then (let rest = drop (length label) s;
                amount = takeWhile is_amount_char (dropWhile is_separator rest)
            in if takeWhile is_separator rest \<noteq> [] \<and> amount \<noteq> [] then Some amount else None)
      else None)"

text \<open>\<open>answer.match(pattern)\<close>: the leftmost match; the result is its group 1.\<close>

fun match_amount :: "js_string \<Rightarrow> js_string \<Rightarrow> js_string option" where
  "match_amount label [] = match_here label []"
| "match_amount label (c # cs) =
     (case match_here label (c # cs) of
        Some amount \<Rightarrow> Some amount
      | None \<Rightarrow> match_amount label cs)"

text \<open>
  \<open>parseFloat(group.replace(/,/g, ''))\<close>. After the commas are removed the group is a
  string of decimal digits: the empty one parses to NaN, any other to its value, rounded.
\<close>

definition remove_commas :: "js_string \<Rightarrow> js_string" where
  "remove_commas s = filter (\<lambda>c. c \<noteq> 0x002C) s"

definition decimal_value :: "js_string \<Rightarrow> nat" where
  "decimal_value s = foldl (\<lambda>n c. 10 * n + unat (c - 0x0030)) 0 s"

definition parseFloat_digits :: "js_string \<Rightarrow> double" where
  "parseFloat_digits s = (if s = [] then NaN else round64 (real (decimal_value s)))"

definition labelled_amount :: "js_string \<Rightarrow> js_string \<Rightarrow> double option" where
  "labelled_amount label reply =
     map_option (\<lambda>amount. parseFloat_digits (remove_commas amount)) (match_amount label reply)"

definition extractCostBreakdown :: "js_string \<Rightarrow> js_string \<Rightarrow> cost_breakdown option" where
  "extractCostBreakdown reply costContext =
     (let breakdown =
            \<lparr>material = labelled_amount material_label reply,
             labor = labelled_amount labor_label reply,
             overhead = labelled_amount overhead_label reply,
             total = labelled_amount total_label reply\<rparr>
      in if material breakdown = None \<and> labor breakdown = None \<and>
            overhead breakdown = None \<and> total breakdown = None
         then None else Some breakdown)"

subsection \<open>query\<close>

definition response_source_of :: "source \<Rightarrow> response_source" where
  "response_source_of s =
     \<lparr>source_document =
        (case src_filename s of
           None \<Rightarrow> ascii ''Unknown''
         | Some f \<Rightarrow> if f = [] then ascii ''Unknown'' else f),
      source_relevance = src_score s,
      source_chunk_text = src_chunk_text s\<rparr>"

text \<open>\<open>input.topK || 5\<close>.\<close>

definition topK_or_default :: "int option \<Rightarrow> int" where
  "topK_or_default k = (case k of None \<Rightarrow> 5 | Some n \<Rightarrow> if n = 0 then 5 else n)"

text \<open>
  \<open>query\<close> writes nothing. A failure of the embedding, of the search or of a document
  lookup becomes \<open>QueryFailed\<close>; \<open>getCostContext\<close>, \<open>generateAnswer\<close> and
  \<open>extractCostBreakdown\<close> do not fail.
\<close>

definition query :: "env \<Rightarrow> rag_query_input \<Rightarrow> error + rag_response" where
  "query env input =
     (case generateEmbedding env (input_query input) of
        Inl e \<Rightarrow> Inl QueryFailed
      | Inr queryEmbedding \<Rightarrow>
         (case vectorize_query env (embedding queryEmbedding)
                 (topK_or_default (input_topK input)) of
            None \<Rightarrow> Inl QueryFailed
          | Some matches \<Rightarrow>
             (case retrieveSourceContext env matches of
                None \<Rightarrow> Inl QueryFailed
              | Some found \<Rightarrow>
                 (let costContext = getCostContext env (input_project_id input);
                      reply = generateAnswer env (input_query input) found costContext;
                      costBreakdown = extractCostBreakdown reply costContext
                  in Inr \<lparr>response_answer = reply,
                          response_sources = map response_source_of found,
                          response_cost_breakdown = costBreakdown\<rparr>))))"

section \<open>Environments and values for the examples\<close>

text \<open>
  \<open>offline_env\<close>: every service fails. \<open>blank_env\<close>: every service answers, the
  database and the index hold nothing, the embedding model gives every text the same
  vector and the chat model gives no text. The examples change single answers of them.
\<close>

definition offline_env :: env where
  "offline_env =
     \<lparr>ai_embeddings = (\<lambda>texts. None),
      ai_chat = (\<lambda>documentContext costContext question. Raises),
      vectorize_insert = (\<lambda>vectors. False),
      vectorize_query = (\<lambda>v k. None),
      db_createVectorMetadata = (\<lambda>row. False),
      db_updateDocumentVectorStatus = (\<lambda>documentId vectorId. False),
      db_getDocument = (\<lambda>documentId. None),
      db_getProductionCosts = None,
      db_getProject = (\<lambda>pid. None),
      db_getTransportationCosts = (\<lambda>pid. None),
      db_getInstallationCosts = (\<lambda>pid. None),
      number_toFixed2 = (\<lambda>x. ascii ''0.00''),
      number_toString = (\<lambda>x. ascii ''0'')\<rparr>"

definition blank_env :: env where
  "blank_env =
     \<lparr>ai_embeddings = (\<lambda>texts. Some (map (\<lambda>t. [Finite 1]) texts)),
      ai_chat = (\<lambda>documentContext costContext question. Reply None),
      vectorize_insert = (\<lambda>vectors. True),
      vectorize_query = (\<lambda>v k. Some []),
      db_createVectorMetadata = (\<lambda>row. True),
      db_updateDocumentVectorStatus = (\<lambda>documentId vectorId. True),
      db_getDocument = (\<lambda>documentId. Some None),
      db_getProductionCosts = Some [],
      db_getProject = (\<lambda>pid. Some None),
      db_getTransportationCosts = (\<lambda>pid. Some []),
      db_getInstallationCosts = (\<lambda>pid. Some []),
      number_toFixed2 = (\<lambda>x. ascii ''0.00''),
      number_toString = (\<lambda>x. ascii ''0'')\<rparr>"

definition empty_store :: store where
  "empty_store = \<lparr>vector_index = [], vector_metadata = [], document_vector_status = []\<rparr>"

text \<open>
  A database with one installation cost for every project and nothing else, where the
  lookup of the transportation costs throws, and the same where that lookup finds nothing.
\<close>

definition transport_down_env :: env where
  "transport_down_env =
     blank_env\<lparr>db_getInstallationCosts := (\<lambda>pid. Some [\<lparr>installation_total_cost = Finite 100\<rparr>]),
               db_getTransportationCosts := (\<lambda>pid. None)\<rparr>"

definition transport_empty_env :: env where
  "transport_empty_env =
     blank_env\<lparr>db_getInstallationCosts := (\<lambda>pid. Some [\<lparr>installation_total_cost = Finite 100\<rparr>]),
               db_getTransportationCosts := (\<lambda>pid. Some [])\<rparr>"

text \<open>The blank environment with a chat model that raises.\<close>

definition chat_down_env :: env where
  "chat_down_env = blank_env\<lparr>ai_chat := (\<lambda>documentContext costContext question. Raises)\<rparr>"

text \<open>A caller's metadata that has a property named \<open>document_id\<close>.\<close>

definition caller_document_id_7 :: js_object where
  "caller_document_id_7 = [ascii ''document_id'' \<mapsto> JNumber 7]"

text \<open>
  A text of 463 words, \<open>"a a ... a b"\<close>: one more word than the default advance of
  462 words, so the default chunking gives two chunks.
\<close>

definition text_of_463_words :: js_string where
  "text_of_463_words = js_join (ascii '' '') (replicate 462 (ascii ''a'') @ [ascii ''b''])"

text \<open>Two matches, one without metadata and one of document 3, and a question.\<close>

definition match_without_document :: vector_search_result where
  "match_without_document =
     \<lparr>match_id = ascii ''orphan'', match_score = Finite 1, match_metadata = None\<rparr>"

definition match_of_document_3 :: vector_search_result where
  "match_of_document_3 =
     \<lparr>match_id = ascii ''doc_3_chunk_0'', match_score = Finite 0,
      match_metadata =
        Some [ascii ''document_id'' \<mapsto> JNumber 3, ascii ''chunk_text'' \<mapsto> JString (ascii ''beam'')]\<rparr>"

definition example_input :: rag_query_input where
  "example_input = \<lparr>input_query = ascii ''cost?'', input_project_id = None, input_topK = None\<rparr>"

section \<open>Auxiliary notions for the proofs about chunkText\<close>

text \<open>
  The windows the loop cuts when it starts at a non-negative index \<open>i\<close> and advances
  by \<open>s\<close>: a terminating description of the loop, used in the proofs only.
\<close>

function windows :: "'a list \<Rightarrow> nat \<Rightarrow> nat \<Rightarrow> nat \<Rightarrow> 'a list list" where
  "windows ws n s i =
     (if i < length ws \<and> 0 < s then take n (drop i ws) # windows ws n s (i + s) else [])"
  by pat_completeness auto
termination
  by (relation "measure (\<lambda>(ws, n, s, i). length ws - i)") auto

declare windows.simps [simp del]

text \<open>
  What the pieces of a split look like: no piece contains white space, and only the first
  and the last piece can be empty.
\<close>

definition wordlike :: "js_string list \<Rightarrow> bool" where
  "wordlike ws \<longleftrightarrow>
     (\<forall>w\<in>set ws. \<forall>c\<in>set w. \<not> is_white_space c) \<and>
     (\<forall>j. 0 < j \<and> Suc j < length ws \<longrightarrow> ws ! j \<noteq> [])"

section \<open>Properties of chunkText\<close>

subsection \<open>The loop: when it returns\<close>

lemma chunk_loop_stall:
  assumes "chunk_loop ws n k i acc = Some r"
  shows "n \<le> k \<longrightarrow> \<not> i < int (length ws)"
proof (rule chunk_loop.raw_induct
        [where P = "\<lambda>ws n k i acc r. n \<le> k \<longrightarrow> \<not> i < int (length ws)", OF _ assms],
       goal_cases)
  case (1 f ws n k i acc r)
  show ?case
  proof (intro impI notI)
    assume nk: "n \<le> k" and i: "i < int (length ws)"
    from 1(2) i obtain acc' where "f ws n k (i + (n - k)) acc' = Some r"
      by simp
    from 1(1) [OF this] nk i show False by linarith
  qed
qed

lemma chunk_loop_returns:
  "k < n \<Longrightarrow> \<exists>r. chunk_loop ws n k i acc = Some r"
proof (induction "nat (int (length ws) - i)" arbitrary: i acc rule: less_induct)
  case less
  show ?case
  proof (cases "i < int (length ws)")
    case True
    have "nat (int (length ws) - (i + (n - k))) < nat (int (length ws) - i)"
      using True less.prems by linarith
    from less.hyps [OF this less.prems]
    show ?thesis using True by (subst chunk_loop.simps) simp
  next
    case False
    then show ?thesis by (subst chunk_loop.simps) simp
  qed
qed

lemma split_from_not_Nil: "split_from cur s \<noteq> []"
  by (induction cur s rule: split_from.induct) auto

lemma split_whitespace_not_Nil: "split_whitespace s \<noteq> []"
  by (simp add: split_whitespace_def split_from_not_Nil)

lemma chunkText_never_returns:
  assumes "chunkSize \<le> overlap"
  shows "chunkText text chunkSize overlap = None"
proof (cases "chunkText text chunkSize overlap")
  case None
  then show ?thesis .
next
  case (Some r)
  then have "\<not> 0 < int (length (split_whitespace text))"
    using chunk_loop_stall [of "split_whitespace text" chunkSize overlap 0 "[]" r] assms
    by (simp add: chunkText_def)
  then show ?thesis by (simp add: split_whitespace_not_Nil)
qed

subsection \<open>The loop as a list of windows\<close>

lemma js_slice_window:
  assumes "0 \<le> n"
  shows "js_slice ws (int i) (int i + n) = take (nat n) (drop i ws)"
proof (cases "int i + n \<le> int (length ws)")
  case True
  then have "nat (int i + n - int i) = nat n" "i \<le> length ws"
    using assms by auto
  then show ?thesis
    using True assms by (simp add: js_slice_def Let_def min_def)
next
  case False
  show ?thesis
  proof (cases "i \<le> length ws")
    case True
    then have "nat (int (length ws) - int i) = length (drop i ws)"
      by simp
    moreover have "length (drop i ws) \<le> nat n"
      using False by simp
    ultimately show ?thesis
      using True False assms by (simp add: js_slice_def Let_def min_def)
  next
    case False
    then show ?thesis
      using assms by (simp add: js_slice_def Let_def min_def)
  qed
qed

lemma chunk_loop_windows:
  assumes "0 \<le> k" "k < n"
  shows "chunk_loop ws n k (int i) acc =
         Some (acc @ map (js_join (ascii '' '')) (windows ws (nat n) (nat (n - k)) i))"
  using assms
proof (induction ws "nat n" "nat (n - k)" i arbitrary: acc rule: windows.induct)
  case (1 ws i)
  show ?case
  proof (cases "i < length ws")
    case True
    have step: "int i + (n - k) = int (i + nat (n - k))"
      using 1(2,3) by simp
    have pos: "0 < nat (n - k)" using 1(3) by simp
    show ?thesis
      apply (subst chunk_loop.simps)
      apply (subst windows.simps)
      using True pos 1(2,3)
      apply (simp only: step)
      apply (subst 1(1))
      apply (simp_all add: js_slice_window)
      done
  next
    case False
    then show ?thesis
      by (subst chunk_loop.simps, subst windows.simps) simp
  qed
qed

lemma concat_drop_windows:
  "k < n \<Longrightarrow> concat (map (drop k) (windows ws n (n - k) i)) = drop (i + k) ws"
proof (induction ws n "n - k" i rule: windows.induct)
  case (1 ws n i)
  show ?case
  proof (cases "i < length ws")
    case True
    have "concat (map (drop k) (windows ws n (n - k) i)) =
          drop k (take n (drop i ws)) @ drop (i + (n - k) + k) ws"
      using True 1 by (subst windows.simps) simp
    also have "\<dots> = take (n - k) (drop (i + k) ws) @ drop (n - k) (drop (i + k) ws)"
      by (simp add: drop_take add.commute add.left_commute)
    finally show ?thesis
      using append_take_drop_id [of "n - k" "drop (i + k) ws"] by simp
  next
    case False
    then show ?thesis by (subst windows.simps) simp
  qed
qed

lemma windows_reconstruct:
  assumes "k < n" "ws \<noteq> []"
  shows "\<exists>rest. windows ws n (n - k) 0 = take n ws # rest \<and>
           take n ws @ concat (map (drop k) rest) = ws"
proof -
  have "windows ws n (n - k) 0 = take n ws # windows ws n (n - k) (n - k)"
    using assms by (subst windows.simps) simp
  moreover have "take n ws @ concat (map (drop k) (windows ws n (n - k) (n - k))) = ws"
    using assms by (simp add: concat_drop_windows)
  ultimately show ?thesis by blast
qed

lemma windows_members:
  "w \<in> set (windows ws n s i) \<Longrightarrow> \<exists>j. j < length ws \<and> w = take n (drop j ws)"
proof (induction ws n s i rule: windows.induct)
  case (1 ws n s i)
  show ?case
  proof (cases "i < length ws \<and> 0 < s")
    case True
    with "1.prems" have "w = take n (drop i ws) \<or> w \<in> set (windows ws n s (i + s))"
      by (subst (asm) windows.simps) simp
    then show ?thesis using True "1.IH" by blast
  next
    case False
    with "1.prems" show ?thesis by (subst (asm) windows.simps) simp
  qed
qed

lemma wordlike_slice:
  assumes "wordlike ws"
  shows "wordlike (take n (drop i ws))"
proof -
  have "set (take n (drop i ws)) \<subseteq> set ws"
    by (meson set_drop_subset set_take_subset subset_trans)
  moreover have "take n (drop i ws) ! j \<noteq> []"
    if "0 < j" "Suc j < length (take n (drop i ws))" for j
  proof -
    from that have "Suc j < length ws - i" by simp
    then have "i \<le> length ws" by arith
    with that have "take n (drop i ws) ! j = ws ! (i + j)" by simp
    moreover from that have "0 < i + j" "Suc (i + j) < length ws" by auto
    ultimately show ?thesis using assms by (simp add: wordlike_def)
  qed
  ultimately show ?thesis using assms unfolding wordlike_def by blast
qed

lemma split_from_word:
  "\<forall>c\<in>set w. \<not> is_white_space c \<Longrightarrow> split_from cur (w @ s) = split_from (cur @ w) s"
  by (induction w arbitrary: cur) auto

lemma dropWhile_word:
  "\<forall>c\<in>set w. \<not> is_white_space c \<Longrightarrow> w \<noteq> [] \<Longrightarrow> dropWhile is_white_space (w @ s) = w @ s"
  by (cases w) auto

lemma is_white_space_space: "is_white_space 0x20"
  by (simp add: is_white_space_def)

lemma split_from_join:
  assumes "ws \<noteq> []" "\<forall>w\<in>set ws. \<forall>c\<in>set w. \<not> is_white_space c"
    and "\<forall>j. 0 < j \<and> Suc j < length ws \<longrightarrow> ws ! j \<noteq> []"
  shows "split_from cur (js_join (ascii '' '') ws) = (cur @ hd ws) # tl ws"
  using assms
proof (induction "ascii '' ''" ws arbitrary: cur rule: js_join.induct)
  case 1
  then show ?case by simp
next
  case (2 x)
  then show ?case using split_from_word [of x cur "[]"] by simp
next
  case (3 x y ys)
  have x: "\<forall>c\<in>set x. \<not> is_white_space c" and y: "\<forall>c\<in>set y. \<not> is_white_space c"
    using "3.prems"(2) by auto
  have inner: "\<forall>j. 0 < j \<and> Suc j < length (y # ys) \<longrightarrow> (y # ys) ! j \<noteq> []"
  proof (intro allI impI)
    fix j assume "0 < j \<and> Suc j < length (y # ys)"
    then have "0 < Suc j \<and> Suc (Suc j) < length (x # y # ys)" by simp
    with "3.prems"(3) have "(x # y # ys) ! Suc j \<noteq> []" by blast
    then show "(y # ys) ! j \<noteq> []" by simp
  qed
  have IH: "split_from [] (js_join (ascii '' '') (y # ys)) = y # ys"
    using "3.hyps" [of "[]"] "3.prems"(2) inner by simp
  have drop: "dropWhile is_white_space (js_join (ascii '' '') (y # ys)) =
              js_join (ascii '' '') (y # ys)"
  proof (cases ys)
    case Nil
    then show ?thesis using y by (cases y) auto
  next
    case (Cons z zs)
    with "3.prems"(3) have "(x # y # ys) ! 1 \<noteq> []" by (metis One_nat_def Suc_less_eq length_Cons zero_less_Suc)
    then have "y \<noteq> []" by simp
    then show ?thesis using Cons y dropWhile_word [of y] by simp
  qed
  have "split_from cur (js_join (ascii '' '') (x # y # ys)) =
        split_from (cur @ x) (0x20 # js_join (ascii '' '') (y # ys))"
    using split_from_word [OF x] by (simp add: ascii_def)
  also have "\<dots> = (cur @ x) # split_from [] (js_join (ascii '' '') (y # ys))"
    using drop by (simp add: is_white_space_space)
  finally show ?case using IH by simp
qed

lemma split_whitespace_join:
  "wordlike ws \<Longrightarrow> ws \<noteq> [] \<Longrightarrow> split_whitespace (js_join (ascii '' '') ws) = ws"
  using split_from_join [of ws "[]"] by (simp add: wordlike_def split_whitespace_def)

lemma split_from_hd: "\<exists>r rest. split_from cur s = (cur @ r) # rest"
  by (induction cur s rule: split_from.induct) auto

lemma split_from_wordlike:
  "\<forall>c\<in>set cur. \<not> is_white_space c \<Longrightarrow> wordlike (split_from cur s)"
proof (induction cur s rule: split_from.induct)
  case (1 cur)
  then show ?case by (simp add: wordlike_def)
next
  case (2 cur c cs)
  show ?case
  proof (cases "is_white_space c")
    case False
    with 2 show ?thesis by simp
  next
    case True
    define t where "t = dropWhile is_white_space cs"
    define R where "R = split_from [] t"
    have R: "wordlike R" using 2(1) True by (simp add: R_def t_def)
    have hdR: "R ! 0 \<noteq> []" if "1 < length R"
    proof (cases t)
      case Nil
      with that show ?thesis by (simp add: R_def)
    next
      case (Cons c' t')
      then have "\<not> is_white_space c'"
        using hd_dropWhile [of is_white_space cs] by (simp add: t_def)
      then have "R = split_from [c'] t'" by (simp add: R_def Cons)
      then show ?thesis using split_from_hd [of "[c']" t'] by auto
    qed
    have "wordlike (cur # R)"
      unfolding wordlike_def
    proof (intro conjI ballI allI impI)
      fix w c assume "w \<in> set (cur # R)" "c \<in> set w"
      then show "\<not> is_white_space c" using R 2(3) by (auto simp: wordlike_def)
    next
      fix j assume j: "0 < j \<and> Suc j < length (cur # R)"
      then obtain j' where j': "j = Suc j'" by (cases j) auto
      show "(cur # R) ! j \<noteq> []"
      proof (cases j')
        case 0
        then show ?thesis using j j' hdR by simp
      next
        case (Suc m)
        then show ?thesis using j j' R by (simp add: wordlike_def)
      qed
    qed
    then show ?thesis using True by (simp add: R_def t_def)
  qed
qed

lemma split_whitespace_wordlike: "wordlike (split_whitespace s)"
  by (simp add: split_whitespace_def split_from_wordlike)

lemma ascii_example_words:
  "split_whitespace (ascii ''a b c d e f g h'') =
     [ascii ''a'', ascii ''b'', ascii ''c'', ascii ''d'',
      ascii ''e'', ascii ''f'', ascii ''g'', ascii ''h'']"
  by (simp add: split_whitespace_def ascii_def is_white_space_def)

lemma chunk_loop_example:
  "chunk_loop [ascii ''a'', ascii ''b'', ascii ''c'', ascii ''d'',
               ascii ''e'', ascii ''f'', ascii ''g'', ascii ''h''] 4 2 0 [] =
     Some [ascii ''a b c d'', ascii ''c d e f'', ascii ''e f g h'', ascii ''g h'']"
  by (simp add: chunk_loop.simps js_slice_def ascii_def)

subsection \<open>The claims about chunkText\<close>

text \<open>
  Claim C1, as the code has it: \<open>chunkText("a b c d e f g h", 4, 2)\<close> returns four
  chunks, not three. The window start 6 is still below the word count 8, so the loop
  runs a fourth time and pushes the short window \<open>"g h"\<close>.
\<close>

theorem chunkText_example_four_chunks:
  "chunkText (ascii ''a b c d e f g h'') 4 2 =
     Some [ascii ''a b c d'', ascii ''c d e f'', ascii ''e f g h'', ascii ''g h'']"
  by (simp add: chunkText_def ascii_example_words chunk_loop_example)

text \<open>
  Claim C1 as stated fails: the result is not the three-chunk list of the specification.
\<close>

theorem chunkText_example_not_three_chunks:
  "chunkText (ascii ''a b c d e f g h'') 4 2 \<noteq>
     Some [ascii ''a b c d'', ascii ''c d e f'', ascii ''e f g h'']"
  by (simp add: chunkText_def ascii_example_words chunk_loop_example)

text \<open>
  Claim C2, as the code has it: \<open>chunkText\<close> returns for every text whenever
  \<open>overlap < chunkSize\<close>, because the window start then grows by at least 1 in each
  iteration. The advance step is \<open>chunkSize - overlap\<close> as it is: the code does not
  clamp it.
\<close>

theorem chunkText_returns:
  "overlap < chunkSize \<Longrightarrow> \<exists>chunks. chunkText text chunkSize overlap = Some chunks"
  by (simp add: chunkText_def chunk_loop_returns)

theorem chunkText_returns_witness:
  "(1::int) < 2 \<and> (\<exists>chunks. chunkText (ascii ''a b c'') 2 1 = Some chunks)"
  using chunkText_returns [of 1 2 "ascii ''a b c''"] by simp

text \<open>
  Claim C2 as stated fails: with \<open>overlap = chunkSize = 1\<close> the window start stays at
  0, below the word count 1, and the loop never returns.
\<close>

theorem chunkText_stalls:
  "(1::int) \<le> 1 \<and> chunkText (ascii ''a'') 1 1 = None"
  using chunkText_never_returns [of 1 1 "ascii ''a''"] by simp

lemma chunkText_windows_reconstruct:
  assumes "0 \<le> k" "k < n"
  shows "\<exists>chunks. chunkText text n k = Some chunks \<and> chunks \<noteq> [] \<and>
           split_whitespace (hd chunks) @
             concat (map (\<lambda>c. drop (nat k) (split_whitespace c)) (tl chunks))
           = split_whitespace text"
proof -
  define ws where "ws = split_whitespace text"
  have kn: "nat k < nat n" and n: "0 < nat n" using assms by auto
  have nk: "nat (n - k) = nat n - nat k" using assms by auto
  have ws: "ws \<noteq> []" "wordlike ws"
    by (simp_all add: ws_def split_whitespace_not_Nil split_whitespace_wordlike)
  obtain rest where rest: "windows ws (nat n) (nat n - nat k) 0 = take (nat n) ws # rest"
    "take (nat n) ws @ concat (map (drop (nat k)) rest) = ws"
    using windows_reconstruct [OF kn ws(1)] by blast
  have resplit: "split_whitespace (js_join (ascii '' '') w) = w"
    if "w \<in> set (windows ws (nat n) (nat n - nat k) 0)" for w
  proof -
    from windows_members [OF that] obtain j where j: "j < length ws" "w = take (nat n) (drop j ws)"
      by blast
    then have "w \<noteq> []" using n by simp
    moreover have "wordlike w" using j ws(2) by (simp add: wordlike_slice)
    ultimately show ?thesis by (rule split_whitespace_join [rotated])
  qed
  have chunks: "chunkText text n k =
      Some (map (js_join (ascii '' '')) (take (nat n) ws # rest))"
    using chunk_loop_windows [OF assms(1,2), of ws 0 "[]"] rest(1)
    by (simp add: chunkText_def ws_def nk)
  have tl_eq: "map (\<lambda>c. drop (nat k) (split_whitespace c)) (map (js_join (ascii '' '')) rest)
        = map (drop (nat k)) rest"
    using resplit rest(1) by (simp add: comp_def)
  have hd_eq: "split_whitespace (js_join (ascii '' '') (take (nat n) ws)) = take (nat n) ws"
    using resplit rest(1) by simp
  show ?thesis
  proof (intro exI conjI)
    show "chunkText text n k =
          Some (js_join (ascii '' '') (take (nat n) ws) # map (js_join (ascii '' '')) rest)"
      using chunks by simp
    show "js_join (ascii '' '') (take (nat n) ws) # map (js_join (ascii '' '')) rest \<noteq> []"
      by simp
    show "split_whitespace
            (hd (js_join (ascii '' '') (take (nat n) ws) # map (js_join (ascii '' '')) rest)) @
          concat (map (\<lambda>c. drop (nat k) (split_whitespace c))
            (tl (js_join (ascii '' '') (take (nat n) ws) # map (js_join (ascii '' '')) rest)))
          = split_whitespace text"
      unfolding list.sel tl_eq hd_eq using rest(2) by (simp only: ws_def)
  qed
qed

text \<open>
  Claim C3: for a non-empty text, a chunk size \<open>n\<close> and an overlap of \<open>k\<close> words
  with \<open>k < n\<close>, \<open>chunkText text n k\<close> returns at least one chunk, and the words of
  the first chunk followed by the words of every later chunk without its first \<open>k\<close>
  words are the words of the text. The words of a chunk are read back from the chunk
  string by the same split that the code applies to the text.
\<close>

theorem chunkText_reconstructs:
  fixes k :: nat
  assumes "text \<noteq> []" "int k < n"
  shows "\<exists>chunks. chunkText text n (int k) = Some chunks \<and> chunks \<noteq> [] \<and>
           split_whitespace (hd chunks) @
             concat (map (\<lambda>c. drop k (split_whitespace c)) (tl chunks))
           = split_whitespace text"
  using chunkText_windows_reconstruct [of "int k" n "text"] assms(2) by simp

theorem chunkText_reconstructs_witness:
  "ascii ''a b c'' \<noteq> [] \<and> int 1 < 2 \<and>
   (\<exists>chunks. chunkText (ascii ''a b c'') 2 (int 1) = Some chunks \<and> chunks \<noteq> [] \<and>
      split_whitespace (hd chunks) @
        concat (map (\<lambda>c. drop 1 (split_whitespace c)) (tl chunks))
      = split_whitespace (ascii ''a b c''))"
  using chunkText_reconstructs [of "ascii ''a b c''" 1 2] by (simp add: ascii_def)

section \<open>Properties of the binary64 arithmetic\<close>

text \<open>Natural numbers below \<open>2^53\<close> are represented, so rounding leaves them.\<close>

lemma round_half_even_of_int: "round_half_even (of_int m) = m"
  by (simp add: round_half_even_def)

lemma nearest64_nat:
  assumes "0 < n" "n < 2 ^ 53"
  shows "nearest64 (real n) = real n"
proof -
  define e where "e = \<lfloor>log 2 (real n)\<rfloor>"
  have "0 \<le> log 2 (real n)" using assms(1) by simp
  then have e0: "0 \<le> e" by (simp add: e_def)
  have "log 2 (real n) < 53" using log2_of_power_less [OF assms(2) assms(1)] by simp
  then have e53: "e < 53" unfolding e_def by linarith
  define k where "k = nat (52 - e)"
  have ek: "real_of_int e - 52 = - real k" using e53 by (simp add: k_def)
  have u: "(2::real) powr (of_int e - 52) = 1 / 2 ^ k"
    unfolding ek by (simp add: powr_minus_divide powr_realpow)
  have m: "max e (- 1022) = e" using e0 by simp
  have "real n / (1 / 2 ^ k) = of_int (int n * 2 ^ k)" by simp
  then have r: "round_half_even (real n / (1 / 2 ^ k)) = int n * 2 ^ k"
    by (simp only: round_half_even_of_int)
  have "nearest64 (real n) =
        of_int (round_half_even (real n / 2 powr (of_int (max e (- 1022)) - 52))) *
        2 powr (of_int (max e (- 1022)) - 52)"
    using assms(1) by (simp add: nearest64_def Let_def e_def)
  also have "\<dots> = of_int (int n * 2 ^ k) * (1 / 2 ^ k)"
    by (simp only: m u r)
  also have "\<dots> = real n" by simp
  finally show ?thesis .
qed

lemma round64_nat:
  assumes "0 < n" "n < 2 ^ 53"
  shows "round64 (real n) = Finite (real n)"
proof -
  have "real n < real (2 ^ 53)" using assms(2) by (simp only: of_nat_less_iff)
  also have "real (2 ^ 53) \<le> 2 ^ 1024 - 2 ^ 970" by simp
  finally have "\<not> 2 ^ 1024 - 2 ^ 970 \<le> \<bar>real n\<bar>" by simp
  then show ?thesis by (simp add: round64_def nearest64_nat [OF assms])
qed

text \<open>
  Rounding in general: \<open>x\<close> in the binade of \<open>2^e\<close> rounds to \<open>M * 2^(e - 52)\<close>
  when \<open>M\<close> is the integer less than half a unit away from \<open>x / 2^(e - 52)\<close>.
\<close>

lemma round_half_even_near:
  assumes "\<bar>y - of_int M\<bar> < 1 / 2"
  shows "round_half_even y = M"
proof (cases "of_int M \<le> y")
  case True
  then have "\<lfloor>y\<rfloor> = M" using assms by (intro floor_unique) auto
  then show ?thesis using assms True by (simp add: round_half_even_def)
next
  case False
  then have f: "\<lfloor>y\<rfloor> = M - 1" using assms by (intro floor_unique) auto
  have "1 / 2 < y - of_int (M - 1)" using assms False by auto
  then show ?thesis using f by (simp add: round_half_even_def)
qed

lemma nearest64_near:
  assumes "x \<noteq> 0" "\<lfloor>log 2 \<bar>x\<bar>\<rfloor> = e" "- 1022 \<le> e"
    and "\<bar>x / 2 powr (of_int e - 52) - of_int M\<bar> < 1 / 2"
  shows "nearest64 x = of_int M * 2 powr (of_int e - 52)"
  using assms by (simp add: nearest64_def Let_def max_def round_half_even_near)

lemma sqrt2_bounds:
  "(6369051672525773 - 1 / 2) / 2 ^ 52 < sqrt 2" "sqrt 2 < (6369051672525773 + 1 / 2) / 2 ^ 52"
proof -
  show "(6369051672525773 - 1 / 2) / 2 ^ 52 < sqrt 2"
    by (rule real_less_rsqrt) (simp add: power2_eq_square)
  show "sqrt 2 < (6369051672525773 + 1 / 2) / 2 ^ 52"
    by (rule real_less_lsqrt) (simp_all add: power2_eq_square)
qed

lemma round64_near:
  assumes "x \<noteq> 0" "\<bar>x\<bar> < 2 ^ 1024 - 2 ^ 970"
    and "2 powr of_int e \<le> \<bar>x\<bar>" "\<bar>x\<bar> < 2 powr (of_int e + 1)" "- 1022 \<le> e"
    and "\<bar>x / 2 powr (of_int e - 52) - of_int M\<bar> < 1 / 2"
  shows "round64 x = Finite (of_int M * 2 powr (of_int e - 52))"
proof -
  have "\<lfloor>log 2 \<bar>x\<bar>\<rfloor> = e"
    using assms(1,3,4) by (subst floor_log_eq_powr_iff) auto
  from nearest64_near [OF assms(1) this assms(5,6)] assms(2)
  show ?thesis by (simp add: round64_def)
qed

lemma small_not_overflow: "\<bar>x\<bar> < 4 \<Longrightarrow> \<bar>x\<bar> < 2 ^ 1024 - 2 ^ 970" for x :: real
proof -
  have "(4::real) \<le> 2 ^ 1024 - 2 ^ 970" by simp
  then show "\<bar>x\<bar> < 4 \<Longrightarrow> \<bar>x\<bar> < 2 ^ 1024 - 2 ^ 970" by linarith
qed

lemma fsqrt_2: "fsqrt (Finite 2) = Finite (6369051672525773 / 2 ^ 52)"
proof -
  have lo: "1 \<le> sqrt 2" by simp
  have hi: "sqrt 2 < 2" by (rule real_less_lsqrt) simp_all
  have p: "(2::real) powr (of_int 0 - 52) = 1 / 2 ^ 52"
    by (simp add: powr_minus_divide)
  have "round64 (sqrt 2) = Finite (of_int 6369051672525773 * 2 powr (of_int 0 - 52))"
  proof (rule round64_near)
    show "sqrt 2 \<noteq> 0" by simp
    show "\<bar>sqrt 2\<bar> < 2 ^ 1024 - 2 ^ 970" using hi by (intro small_not_overflow) simp
    show "2 powr of_int 0 \<le> \<bar>sqrt 2\<bar>" using lo by simp
    show "\<bar>sqrt 2\<bar> < 2 powr (of_int 0 + 1)" using hi by simp
    show "- 1022 \<le> (0::int)" by simp
    have "6369051672525773 - 1 / 2 < sqrt 2 * 2 ^ 52" "sqrt 2 * 2 ^ 52 < 6369051672525773 + 1 / 2"
      using sqrt2_bounds by (simp_all add: field_simps)
    then have "\<bar>sqrt 2 * 2 ^ 52 - 6369051672525773\<bar> < 1 / 2" by linarith
    then show "\<bar>sqrt 2 / 2 powr (of_int 0 - 52) - of_int 6369051672525773\<bar> < 1 / 2"
      unfolding p by simp
  qed
  then show ?thesis unfolding p by simp
qed

lemma round64_1: "round64 1 = Finite 1"
  using round64_nat [of 1] by simp

lemma round64_2: "round64 2 = Finite 2"
  using round64_nat [of 2] by simp

lemma fmul_sqrt2:
  "fmul (Finite (6369051672525773 / 2 ^ 52)) (Finite (6369051672525773 / 2 ^ 52)) =
   Finite (4503599627370497 / 2 ^ 51)"
proof -
  let ?x = "6369051672525773 / 2 ^ 52 * (6369051672525773 / 2 ^ 52) :: real"
  have p: "(2::real) powr (of_int 1 - 52) = 1 / 2 ^ 51"
    using powr_minus_divide [of "2::real" 51] by simp
  have "round64 ?x = Finite (of_int 4503599627370497 * 2 powr (of_int 1 - 52))"
  proof (rule round64_near)
    show "?x \<noteq> 0" by simp
    show "\<bar>?x\<bar> < 2 ^ 1024 - 2 ^ 970" by (intro small_not_overflow) simp
    show "2 powr of_int 1 \<le> \<bar>?x\<bar>" by simp
    show "\<bar>?x\<bar> < 2 powr (of_int 1 + 1)" by simp
    show "- 1022 \<le> (1::int)" by simp
    show "\<bar>?x / 2 powr (of_int 1 - 52) - of_int 4503599627370497\<bar> < 1 / 2"
      unfolding p by simp
  qed
  then show ?thesis unfolding p by simp
qed

lemma fdiv_2:
  "fdiv (Finite 2) (Finite (4503599627370497 / 2 ^ 51)) = Finite (9007199254740990 / 2 ^ 53)"
proof -
  let ?x = "2 / (4503599627370497 / 2 ^ 51) :: real"
  have p: "(2::real) powr (of_int (- 1) - 52) = 1 / 2 ^ 53"
    using powr_minus_divide [of "2::real" 53] by simp
  have "round64 ?x = Finite (of_int 9007199254740990 * 2 powr (of_int (- 1) - 52))"
  proof (rule round64_near)
    show "?x \<noteq> 0" by simp
    show "\<bar>?x\<bar> < 2 ^ 1024 - 2 ^ 970" by (intro small_not_overflow) simp
    show "2 powr of_int (- 1) \<le> \<bar>?x\<bar>" by (simp add: powr_minus_divide)
    show "\<bar>?x\<bar> < 2 powr (of_int (- 1) + 1)" by simp
    show "- 1022 \<le> (- 1::int)" by simp
    show "\<bar>?x / 2 powr (of_int (- 1) - 52) - of_int 9007199254740990\<bar> < 1 / 2"
      unfolding p by simp
  qed
  then show ?thesis unfolding p by simp
qed

section \<open>Properties of cosineSimilarity\<close>

lemma cosine_sums_exact_self:
  "cosine_sums exact xs xs (d, n1, n2) =
     (d + (\<Sum>x\<leftarrow>xs. x * x), n1 + (\<Sum>x\<leftarrow>xs. x * x), n2 + (\<Sum>x\<leftarrow>xs. x * x))"
  by (induction xs arbitrary: d n1 n2) (simp_all add: exact_def)

lemma sum_squares_pos:
  fixes v :: "real list"
  shows "\<exists>x\<in>set v. x \<noteq> 0 \<Longrightarrow> 0 < (\<Sum>x\<leftarrow>v. x * x)"
proof (induction v)
  case Nil
  then show ?case by simp
next
  case (Cons a v)
  have nonneg: "0 \<le> (\<Sum>x\<leftarrow>v. x * x)"
    by (rule sum_list_nonneg) auto
  show ?case
  proof (cases "a = 0")
    case True
    with Cons show ?thesis by simp
  next
    case False
    then have "0 < a * a" by (cases "0 < a") (auto simp: zero_less_mult_iff)
    with nonneg show ?thesis by simp
  qed
qed

lemma cosineSimilarity_exact_self:
  assumes "\<exists>x\<in>set v. x \<noteq> 0"
  shows "cosineSimilarity exact v v = Inr 1"
proof -
  have "0 < (\<Sum>x\<leftarrow>v. x * x)" using assms by (rule sum_squares_pos)
  then show ?thesis
    by (simp add: cosineSimilarity_def cosine_sums_exact_self) (simp add: exact_def)
qed

lemma cosine_sums_self:
  "cosine_sums A xs xs (d, d, d) =
     (let s = foldl (\<lambda>acc x. num_add A acc (num_mul A x x)) d xs in (s, s, s))"
  by (induction xs arbitrary: d) (simp_all add: Let_def)

lemma cosineSimilarity_self:
  "cosineSimilarity A w w =
     Inr (let s = foldl (\<lambda>acc x. num_add A acc (num_mul A x x)) (num_zero A) w
          in num_div A s (num_mul A (num_sqrt A s) (num_sqrt A s)))"
  by (simp add: cosineSimilarity_def cosine_sums_self Let_def)

lemma cosineSimilarity_mismatch:
  "cosineSimilarity A a b = Inl DimensionMismatch \<longleftrightarrow> length a \<noteq> length b"
  by (simp add: cosineSimilarity_def split: prod.splits)

lemma cosineSimilarity_value:
  "length a = length b \<Longrightarrow> \<exists>r. cosineSimilarity A a b = Inr r"
  by (simp add: cosineSimilarity_def split: prod.splits)

lemma round64_overflow: "round64 (2 ^ 600 * 2 ^ 600) = PosInf"
proof -
  have "(2::real) ^ 1024 - 2 ^ 970 \<le> 2 ^ 1024" by simp
  also have "\<dots> \<le> (2::real) ^ 1200" by (rule power_increasing) simp_all
  also have "\<dots> = 2 ^ 600 * 2 ^ 600" by (simp add: power_add [symmetric])
  finally have "(2::real) ^ 1024 - 2 ^ 970 \<le> \<bar>2 ^ 600 * 2 ^ 600\<bar>" by simp
  then show ?thesis unfolding round64_def by simp
qed

lemma cosine_overflow_step:
  "round64 (x * x) = PosInf \<Longrightarrow> cosineSimilarity binary64 [Finite x] [Finite x] = Inr NaN"
  by (simp add: cosineSimilarity_def binary64_def)

lemma cosine_overflow:
  "cosineSimilarity binary64 [Finite (2 ^ 600)] [Finite (2 ^ 600)] = Inr NaN"
  by (rule cosine_overflow_step [OF round64_overflow])

lemma cosine_ones:
  "cosineSimilarity binary64 [Finite 1, Finite 1] [Finite 1, Finite 1] =
   Inr (Finite (9007199254740990 / 2 ^ 53))"
proof -
  have s1: "fmul (Finite 1) (Finite 1) = Finite 1" by (simp add: round64_1)
  have s2: "fadd (Finite 0) (Finite 1) = Finite 1" by (simp add: round64_1)
  have s3: "fadd (Finite 1) (Finite 1) = Finite 2" by (simp add: round64_2)
  have sums: "cosine_sums binary64 [Finite 1, Finite 1] [Finite 1, Finite 1]
                (Finite 0, Finite 0, Finite 0) = (Finite 2, Finite 2, Finite 2)"
    by (simp add: binary64_def s1 s2 s3 del: fmul.simps fadd.simps)
  have "cosineSimilarity binary64 [Finite 1, Finite 1] [Finite 1, Finite 1] =
        Inr (fdiv (Finite 2) (fmul (fsqrt (Finite 2)) (fsqrt (Finite 2))))"
    unfolding cosineSimilarity_def using sums
    by (simp add: binary64_def del: fsqrt.simps fmul.simps fdiv.simps)
  also have "\<dots> = Inr (Finite (9007199254740990 / 2 ^ 53))"
    by (simp only: fsqrt_2 fmul_sqrt2 fdiv_2)
  finally show ?thesis .
qed

text \<open>
  Claim C8, as the code has it. \<open>cosineSimilarity\<close> fails with the dimension error
  exactly when the two lengths differ, and returns a number otherwise, whatever the
  arithmetic. For a vector against itself the three sums are the same number \<open>s\<close>, and
  the result is \<open>s / (sqrt s * sqrt s)\<close> as the arithmetic computes it. In exact
  arithmetic that is 1 for every vector with a non-zero component. In binary64 the square
  roots and their product are rounded (and the sums can overflow, which gives NaN).
\<close>

theorem cosineSimilarity_exact_and_mismatch:
  "(cosineSimilarity A a b = Inl DimensionMismatch \<longleftrightarrow> length a \<noteq> length b) \<and>
   ((\<exists>r. cosineSimilarity A a b = Inr r) \<longleftrightarrow> length a = length b) \<and>
   cosineSimilarity A w w =
     Inr (let s = foldl (\<lambda>acc x. num_add A acc (num_mul A x x)) (num_zero A) w
          in num_div A s (num_mul A (num_sqrt A s) (num_sqrt A s))) \<and>
   ((\<exists>x\<in>set v. x \<noteq> 0) \<longrightarrow> cosineSimilarity exact v v = Inr 1)"
  using cosineSimilarity_exact_self [of v] cosineSimilarity_mismatch [of A a b]
    cosineSimilarity_value [of a b A] cosineSimilarity_self [of A w]
  by auto

theorem cosineSimilarity_exact_and_mismatch_witness:
  "(\<exists>x\<in>set [3, 4 :: real]. x \<noteq> 0) \<and> cosineSimilarity exact [3, 4] [3, 4] = Inr 1 \<and>
   cosineSimilarity binary64 [Finite 1] [] = Inl DimensionMismatch \<and>
   length [Finite 1] \<noteq> length ([] :: double list)"
  using cosineSimilarity_exact_and_mismatch
    [where v = "[3, 4]" and A = binary64 and a = "[Finite 1]" and b = "[]" and w = "[]"]
  by simp

text \<open>
  Claim C8 as stated fails on the numbers of the program: for \<open>v = [1, 1]\<close> the three
  sums are 2, the rounded square root of 2 times itself rounds to \<open>2 + 2^-51\<close>, and
  the quotient rounds to \<open>1 - 2^-52\<close> (printed 0.9999999999999998), not to 1.
\<close>

theorem cosineSimilarity_binary64_ones:
  "cosineSimilarity binary64 [Finite 1, Finite 1] [Finite 1, Finite 1] =
     Inr (Finite (1 - 1 / 2 ^ 52)) \<and>
   Finite (1 - 1 / 2 ^ 52) \<noteq> Finite 1"
  using cosine_ones by simp

section \<open>Properties of extractCostBreakdown\<close>

lemma parse_8500: "parseFloat_digits (remove_commas (ascii ''8,500'')) = Finite 8500"
proof -
  have r: "round64 (real 8500) = Finite (real 8500)"
    by (rule round64_nat) simp_all
  have "remove_commas (ascii ''8,500'') = ascii ''8500''"
    by (simp add: remove_commas_def ascii_def)
  moreover have "decimal_value (ascii ''8500'') = 8500"
    by (simp add: decimal_value_def ascii_def)
  ultimately show ?thesis using r by (simp add: parseFloat_digits_def ascii_def)
qed

lemma take_label_prefix: "take (length label) s = label \<longleftrightarrow> prefix label s"
proof
  assume "take (length label) s = label"
  then show "prefix label s" by (metis take_is_prefix)
next
  assume "prefix label s"
  then show "take (length label) s = label" by (auto simp: prefix_def)
qed

lemma match_here_needs_prefix: "\<not> prefix label s \<Longrightarrow> match_here label s = None"
  by (simp add: match_here_def take_label_prefix)

lemma match_amount_absent: "\<not> sublist label s \<Longrightarrow> match_amount label s = None"
proof (induction s)
  case Nil
  then show ?case by (simp add: match_here_needs_prefix)
next
  case (Cons c cs)
  then have "\<not> prefix label (c # cs)" "\<not> sublist label cs"
    by (auto simp: sublist_Cons_right)
  with Cons.IH show ?case by (simp add: match_here_needs_prefix)
qed

lemma match_amount_here: "match_here label s = Some a \<Longrightarrow> match_amount label s = Some a"
  by (cases s) simp_all

lemma match_here_total:
  assumes "post = [] \<or> \<not> is_amount_char (hd post)"
  shows "match_here total_label (total_label @ ascii '': 8,500'' @ post) = Some (ascii ''8,500'')"
proof -
  have "takeWhile is_amount_char post = []"
    using assms by (cases post) auto
  then show ?thesis
    by (simp add: match_here_def ascii_def is_separator_def is_white_space_def is_amount_char_def)
qed

lemma match_amount_total:
  assumes "post = [] \<or> \<not> is_amount_char (hd post)"
    and "\<forall>ps ss. pre @ total_label @ ascii '': 8,500'' @ post = ps @ total_label @ ss \<longrightarrow> ps = pre"
  shows "match_amount total_label (pre @ total_label @ ascii '': 8,500'' @ post) =
         Some (ascii ''8,500'')"
  using assms(2)
proof (induction pre)
  case Nil
  show ?case using match_amount_here [OF match_here_total [OF assms(1)]] by simp
next
  case (Cons c pre)
  let ?rest = "total_label @ ascii '': 8,500'' @ post"
  have "\<not> prefix total_label (c # pre @ ?rest)"
  proof
    assume "prefix total_label (c # pre @ ?rest)"
    then obtain ss where "(c # pre) @ ?rest = [] @ total_label @ ss"
      by (auto simp: prefix_def)
    with Cons.prems have "[] = c # pre" by blast
    then show False by simp
  qed
  then have here: "match_here total_label (c # pre @ ?rest) = None"
    by (rule match_here_needs_prefix)
  have "\<forall>ps ss. pre @ ?rest = ps @ total_label @ ss \<longrightarrow> ps = pre"
  proof (intro allI impI)
    fix ps ss assume "pre @ ?rest = ps @ total_label @ ss"
    then have "(c # pre) @ ?rest = (c # ps) @ total_label @ ss" by simp
    with Cons.prems have "c # ps = c # pre" by blast
    then show "ps = pre" by simp
  qed
  from Cons.IH [OF this] here show ?case by simp
qed

text \<open>
  Claim C5, as the code has it: the labels that the patterns look for are the Thai words
  of the source, \<open>total_label\<close> for the total. A reply that holds the total label
  followed by \<open>": 8,500"\<close>, where the amount ends there, the total label occurs
  nowhere else and the other three labels occur nowhere, gives the breakdown with
  \<open>total = 8500\<close> and the other three fields absent.
\<close>

theorem extractCostBreakdown_total_only:
  assumes "reply = pre @ total_label @ ascii '': 8,500'' @ post"
    and "post = [] \<or> \<not> is_amount_char (hd post)"
    and "\<not> sublist material_label reply"
    and "\<not> sublist labor_label reply"
    and "\<not> sublist overhead_label reply"
    and "\<forall>ps ss. reply = ps @ total_label @ ss \<longrightarrow> ps = pre"
  shows "extractCostBreakdown reply costContext =
         Some \<lparr>material = None, labor = None, overhead = None, total = Some (Finite 8500)\<rparr>"
proof -
  have uniq: "\<forall>ps ss. pre @ total_label @ ascii '': 8,500'' @ post = ps @ total_label @ ss
                \<longrightarrow> ps = pre"
    using assms(6) unfolding assms(1) .
  have "match_amount total_label reply = Some (ascii ''8,500'')"
    unfolding assms(1) by (rule match_amount_total [OF assms(2) uniq])
  then have t: "labelled_amount total_label reply = Some (Finite 8500)"
    by (simp add: labelled_amount_def parse_8500)
  have m: "labelled_amount material_label reply = None"
    using assms(3) by (simp add: labelled_amount_def match_amount_absent)
  have l: "labelled_amount labor_label reply = None"
    using assms(4) by (simp add: labelled_amount_def match_amount_absent)
  have h: "labelled_amount overhead_label reply = None"
    using assms(5) by (simp add: labelled_amount_def match_amount_absent)
  show ?thesis by (simp add: extractCostBreakdown_def t m l h)
qed

theorem extractCostBreakdown_total_only_witness:
  "extractCostBreakdown (total_label @ ascii '': 8,500'' @ [0x0020, 0x0E1A, 0x0E32, 0x0E17]) [] =
     Some \<lparr>material = None, labor = None, overhead = None, total = Some (Finite 8500)\<rparr>"
proof (rule extractCostBreakdown_total_only [where pre = "[]" and post = "[0x0020, 0x0E1A, 0x0E32, 0x0E17]"])
  let ?reply = "total_label @ ascii '': 8,500'' @ [0x0020, 0x0E1A, 0x0E32, 0x0E17]"
  show "?reply = [] @ total_label @ ascii '': 8,500'' @ [0x0020, 0x0E1A, 0x0E32, 0x0E17]"
    by simp
  show "[0x0020, 0x0E1A, 0x0E32, 0x0E17] = [] \<or>
        \<not> is_amount_char (hd [0x0020, 0x0E1A, 0x0E32, 0x0E17 :: code_unit])"
    by (simp add: is_amount_char_def)
  show "\<not> sublist material_label ?reply"
    by (simp add: material_label_def total_label_def ascii_def sublist_Cons_right)
  show "\<not> sublist labor_label ?reply"
    by (simp add: labor_label_def total_label_def ascii_def sublist_Cons_right)
  show "\<not> sublist overhead_label ?reply"
    by (simp add: overhead_label_def total_label_def ascii_def sublist_Cons_right)
  have later: "\<not> sublist total_label (tl ?reply)"
    by (simp add: total_label_def ascii_def sublist_Cons_right)
  show "\<forall>ps ss. ?reply = ps @ total_label @ ss \<longrightarrow> ps = []"
  proof (intro allI impI)
    fix ps ss assume eq: "?reply = ps @ total_label @ ss"
    show "ps = []"
    proof (cases ps)
      case Nil
      then show ?thesis .
    next
      case (Cons a ps')
      with eq have "tl ?reply = ps' @ total_label @ ss"
        by (metis append_Cons list.sel(3))
      then have "sublist total_label (tl ?reply)"
        unfolding sublist_def by blast
      with later show ?thesis by simp
    qed
  qed
qed

text \<open>
  Claim C5 as stated fails: the English label is none of the four labels, and the reply
  \<open>"total: 8,500"\<close> gives no breakdown at all.
\<close>

theorem extractCostBreakdown_english_label:
  "extractCostBreakdown (ascii ''total: 8,500'') [] = None"
  by (simp add: extractCostBreakdown_def labelled_amount_def match_here_def ascii_def
      material_label_def labor_label_def overhead_label_def total_label_def)

section \<open>Properties of getCostContext\<close>

lemma baht_line_end_not_Nil: "baht_line_end \<noteq> []"
  by (simp add: baht_line_end_def)

lemma no_cost_data_text_not_Nil: "no_cost_data_text \<noteq> []"
  by (simp add: no_cost_data_text_def)

lemma context_or_no_data_not_Nil: "context_or_no_data context \<noteq> []"
  by (simp add: context_or_no_data_def no_cost_data_text_not_Nil)

lemma average_line_Nil: "average_line env label [] = []"
  by (simp add: average_line_def)

text \<open>
  Claim C7, as the code has it: \<open>getCostContext\<close> is a total function into strings
  (no lookup failure leaves it), and its result is never the empty string. When the
  lookups find nothing (no production cost, and no project asked for or no project row
  and no transportation or installation cost for it) the result is the fixed text
  \<open>no_cost_data_text\<close>. A lookup that throws is caught and ends the assembly: the
  result is the context built before it, without a line for the failed lookup or for a
  later one, or the fixed text if nothing was built.
\<close>

theorem getCostContext_total_and_never_empty:
  "getCostContext env projectId \<noteq> [] \<and>
   (db_getProductionCosts env = Some [] \<and>
    (projectId = None \<or> projectId = Some 0 \<or>
     (\<exists>pid. projectId = Some pid \<and> db_getProject env pid = Some None \<and>
        db_getTransportationCosts env pid = Some [] \<and>
        db_getInstallationCosts env pid = Some []))
    \<longrightarrow> getCostContext env projectId = no_cost_data_text) \<and>
   (db_getProductionCosts env = None
    \<longrightarrow> getCostContext env projectId = no_cost_data_text) \<and>
   (\<forall>costs pid. db_getProductionCosts env = Some costs \<and> projectId = Some pid \<and> pid \<noteq> 0 \<and>
      db_getProject env pid = None
    \<longrightarrow> getCostContext env projectId =
        context_or_no_data (average_line env production_label (map cost_per_unit costs))) \<and>
   (\<forall>costs pid found. db_getProductionCosts env = Some costs \<and> projectId = Some pid \<and> pid \<noteq> 0 \<and>
      db_getProject env pid = Some found \<and> db_getTransportationCosts env pid = None
    \<longrightarrow> getCostContext env projectId =
        context_or_no_data
          (average_line env production_label (map cost_per_unit costs) @
           (case found of None \<Rightarrow> [] | Some p \<Rightarrow> project_lines env p))) \<and>
   (\<forall>costs pid found transport. db_getProductionCosts env = Some costs \<and> projectId = Some pid \<and>
      pid \<noteq> 0 \<and> db_getProject env pid = Some found \<and>
      db_getTransportationCosts env pid = Some transport \<and> db_getInstallationCosts env pid = None
    \<longrightarrow> getCostContext env projectId =
        context_or_no_data
          (average_line env production_label (map cost_per_unit costs) @
           (case found of None \<Rightarrow> [] | Some p \<Rightarrow> project_lines env p) @
           average_line env transportation_label (map transportation_total_cost transport)))"
proof (intro conjI)
  show "getCostContext env projectId \<noteq> []"
    by (simp add: getCostContext_def context_or_no_data_not_Nil)
qed (auto simp: getCostContext_def cost_context_tried_def context_or_no_data_def
        average_line_Nil Let_def)

theorem getCostContext_total_and_never_empty_witness:
  "getCostContext blank_env (Some 1) = no_cost_data_text \<and>
   getCostContext offline_env (Some 1) = no_cost_data_text \<and>
   getCostContext
     (blank_env\<lparr>db_getProductionCosts := Some [\<lparr>cost_per_unit = Finite 100\<rparr>],
                db_getTransportationCosts := (\<lambda>pid. None)\<rparr>) (Some 1)
     = production_label @ ascii ''0.00'' @ baht_line_end"
  using getCostContext_total_and_never_empty [of blank_env "Some 1"]
    getCostContext_total_and_never_empty [of offline_env "Some 1"]
    getCostContext_total_and_never_empty
      [of "blank_env\<lparr>db_getProductionCosts := Some [\<lparr>cost_per_unit = Finite 100\<rparr>],
                      db_getTransportationCosts := (\<lambda>pid. None)\<rparr>" "Some 1"]
  by (simp add: blank_env_def offline_env_def average_line_def context_or_no_data_def
      production_label_def)

text \<open>
  Claim C7 as stated fails: a lookup that throws is not treated as no data for its line
  only. With an installation cost on record and nothing else, the context is the line of
  the installation cost when the transportation lookup finds nothing, and the fixed
  no-data text when the transportation lookup throws.
\<close>

theorem getCostContext_failure_drops_later_lines:
  "getCostContext transport_empty_env (Some 1) =
     installation_label @ ascii ''0.00'' @ baht_line_end \<and>
   getCostContext transport_down_env (Some 1) = no_cost_data_text \<and>
   installation_label @ ascii ''0.00'' @ baht_line_end \<noteq> no_cost_data_text"
  by (simp add: getCostContext_def cost_context_tried_def context_or_no_data_def
      average_line_def transport_empty_env_def transport_down_env_def blank_env_def
      installation_label_def no_cost_data_text_def)

section \<open>Properties of query\<close>

lemma retrieve_sources_filter:
  assumes "\<forall>m\<in>set matches. truthy (match_document_id m) \<longrightarrow>
             db_getDocument env (match_document_id m) \<noteq> None"
  shows "retrieve_sources env matches acc =
         Some (acc @ map (\<lambda>m. source_of_match m (the (db_getDocument env (match_document_id m))))
                      (filter (\<lambda>m. truthy (match_document_id m)) matches))"
  using assms
proof (induction matches arbitrary: acc)
  case Nil
  then show ?case by simp
next
  case (Cons m matches)
  then show ?case by (cases "db_getDocument env (match_document_id m)") auto
qed

lemma retrieve_sources_length:
  "retrieve_sources env matches acc = Some found \<Longrightarrow>
   length found = length acc + length (filter (\<lambda>m. truthy (match_document_id m)) matches)"
proof (induction matches arbitrary: acc)
  case Nil
  then show ?case by simp
next
  case (Cons m matches)
  show ?case
  proof (cases "truthy (match_document_id m)")
    case True
    with Cons.prems obtain doc where
      "retrieve_sources env matches (acc @ [source_of_match m doc]) = Some found"
      by (auto split: option.splits)
    from Cons.IH [OF this] True show ?thesis by simp
  next
    case False
    with Cons.prems have "retrieve_sources env matches acc = Some found" by simp
    from Cons.IH [OF this] False show ?thesis by simp
  qed
qed

lemma generateAnswer_raises:
  "ai_chat env (js_join [0x000A, 0x000A] (document_excerpts 0 found)) costContext question = Raises
   \<Longrightarrow> generateAnswer env question found costContext = generation_error_text"
  by (simp add: generateAnswer_def)

lemma query_after_retrieval:
  assumes "generateEmbedding env (input_query input) = Inr queryEmbedding"
    and "vectorize_query env (embedding queryEmbedding) (topK_or_default (input_topK input)) =
         Some matches"
    and "retrieveSourceContext env matches = Some found"
  shows "query env input =
         Inr \<lparr>response_answer =
                generateAnswer env (input_query input) found
                  (getCostContext env (input_project_id input)),
              response_sources = map response_source_of found,
              response_cost_breakdown =
                extractCostBreakdown
                  (generateAnswer env (input_query input) found
                     (getCostContext env (input_project_id input)))
                  (getCostContext env (input_project_id input))\<rparr>"
  using assms by (simp add: query_def Let_def)

lemma example_embedding:
  "generateEmbedding (blank_env\<lparr>ai_chat := c, vectorize_query := q, db_getDocument := d\<rparr>)
     (input_query example_input) = Inr \<lparr>embedding = [Finite 1], dimensions = 1\<rparr>"
  by (simp add: generateEmbedding_def blank_env_def)

lemma falsy_document_ids:
  "match_metadata m = None \<or>
   (\<exists>md. match_metadata m = Some md \<and>
      md (ascii ''document_id'') \<in> {None, Some JUndefined, Some JNull, Some (JNumber 0)})
   \<Longrightarrow> \<not> truthy (match_document_id m)"
  by (auto simp: match_document_id_def get_property_def)

text \<open>
  Claim C6, as the code has it: when the embedding, the search and the document lookups
  succeed and the chat model raises, \<open>query\<close> returns a result; its answer is the
  fixed text \<open>generation_error_text\<close>, and its sources are the ones built from the
  matches, one for each match with a truthy \<open>document_id\<close>. The list is empty when
  there is no such match.
\<close>

theorem query_survives_generation_failure:
  assumes "generateEmbedding env (input_query input) = Inr queryEmbedding"
    and "vectorize_query env (embedding queryEmbedding) (topK_or_default (input_topK input)) =
         Some matches"
    and "retrieveSourceContext env matches = Some found"
    and "ai_chat env (js_join [0x000A, 0x000A] (document_excerpts 0 found))
           (getCostContext env (input_project_id input)) (input_query input) = Raises"
  shows "\<exists>r. query env input = Inr r \<and>
           response_answer r = generation_error_text \<and>
           response_sources r = map response_source_of found \<and>
           length (response_sources r) =
             length (filter (\<lambda>m. truthy (match_document_id m)) matches)"
proof -
  have "length found = length (filter (\<lambda>m. truthy (match_document_id m)) matches)"
    using retrieve_sources_length [of env matches "[]" found] assms(3)
    by (simp add: retrieveSourceContext_def)
  then show ?thesis
    using query_after_retrieval [OF assms(1-3)] generateAnswer_raises [OF assms(4)]
    by simp
qed

theorem query_survives_generation_failure_witness:
  "\<exists>r. query
          (blank_env\<lparr>ai_chat := (\<lambda>documentContext costContext question. Raises),
             vectorize_query := (\<lambda>v k. Some [match_without_document, match_of_document_3]),
             db_getDocument := (\<lambda>documentId. Some (Some \<lparr>filename = ascii ''report.txt''\<rparr>))\<rparr>)
          example_input = Inr r \<and>
        response_answer r = generation_error_text \<and>
        response_sources r =
          [\<lparr>source_document = ascii ''report.txt'', source_relevance = Finite 0,
            source_chunk_text = JString (ascii ''beam'')\<rparr>]"
proof -
  let ?env = "blank_env\<lparr>ai_chat := (\<lambda>documentContext costContext question. Raises),
             vectorize_query := (\<lambda>v k. Some [match_without_document, match_of_document_3]),
             db_getDocument := (\<lambda>documentId. Some (Some \<lparr>filename = ascii ''report.txt''\<rparr>))\<rparr>"
  let ?found = "[source_of_match match_of_document_3 (Some \<lparr>filename = ascii ''report.txt''\<rparr>)]"
  have search: "vectorize_query ?env (embedding \<lparr>embedding = [Finite 1], dimensions = 1\<rparr>)
                  (topK_or_default (input_topK example_input)) =
                Some [match_without_document, match_of_document_3]"
    by simp
  have retrieval: "retrieveSourceContext ?env [match_without_document, match_of_document_3] =
                   Some ?found"
    by (simp add: retrieveSourceContext_def match_document_id_def get_property_def
        match_without_document_def match_of_document_3_def ascii_def)
  have raises: "ai_chat ?env (js_join [0x000A, 0x000A] (document_excerpts 0 ?found))
           (getCostContext ?env (input_project_id example_input)) (input_query example_input) =
           Raises"
    by simp
  have "response_source_of (source_of_match match_of_document_3 (Some \<lparr>filename = ascii ''report.txt''\<rparr>))
        = \<lparr>source_document = ascii ''report.txt'', source_relevance = Finite 0,
            source_chunk_text = JString (ascii ''beam'')\<rparr>"
    by (simp add: response_source_of_def source_of_match_def src_chunk_text_def get_property_def
        match_of_document_3_def ascii_def)
  moreover obtain r where "query ?env example_input = Inr r"
    "response_answer r = generation_error_text"
    "response_sources r = map response_source_of ?found"
    using query_survives_generation_failure [OF example_embedding search retrieval raises]
    by blast
  ultimately show ?thesis by (intro exI [of _ r]) simp
qed

text \<open>
  Claim C6 as stated fails: when the search succeeds with no match, the embedding and the
  retrieval have succeeded, the generation raises, and the sources of the result are
  empty.
\<close>

theorem query_generation_failure_without_sources:
  "generateEmbedding chat_down_env (input_query example_input) =
     Inr \<lparr>embedding = [Finite 1], dimensions = 1\<rparr> \<and>
   vectorize_query chat_down_env [Finite 1] 5 = Some [] \<and>
   retrieveSourceContext chat_down_env [] = Some [] \<and>
   ai_chat chat_down_env [] (getCostContext chat_down_env None) (input_query example_input) =
     Raises \<and>
   map_sum id response_answer (query chat_down_env example_input) = Inr generation_error_text \<and>
   map_sum id response_sources (query chat_down_env example_input) = Inr []"
  by (simp add: query_def generateEmbedding_def retrieveSourceContext_def generateAnswer_def
      chat_down_env_def blank_env_def example_input_def topK_or_default_def Let_def)

text \<open>
  Claim C9: the sources that \<open>query\<close> returns are built from the matches with a
  truthy \<open>document_id\<close>, in the order of the matches; the other matches (no metadata,
  no \<open>document_id\<close>, \<open>null\<close>, 0) leave no entry, so there can be fewer sources
  than matches.
\<close>

theorem query_sources_skip_matches_without_document_id:
  assumes "generateEmbedding env (input_query input) = Inr queryEmbedding"
    and "vectorize_query env (embedding queryEmbedding) (topK_or_default (input_topK input)) =
         Some matches"
    and "\<forall>m\<in>set matches. truthy (match_document_id m) \<longrightarrow>
           db_getDocument env (match_document_id m) \<noteq> None"
  shows "(\<exists>r. query env input = Inr r \<and>
           response_sources r =
             map (\<lambda>m. response_source_of
                        (source_of_match m (the (db_getDocument env (match_document_id m)))))
               (filter (\<lambda>m. truthy (match_document_id m)) matches) \<and>
           length (response_sources r) \<le> length matches) \<and>
         (\<forall>m\<in>set matches.
            match_metadata m = None \<or>
            (\<exists>md. match_metadata m = Some md \<and>
               md (ascii ''document_id'') \<in> {None, Some JUndefined, Some JNull, Some (JNumber 0)})
            \<longrightarrow> \<not> truthy (match_document_id m))"
proof
  let ?found = "map (\<lambda>m. source_of_match m (the (db_getDocument env (match_document_id m))))
                  (filter (\<lambda>m. truthy (match_document_id m)) matches)"
  have "retrieveSourceContext env matches = Some ?found"
    using retrieve_sources_filter [OF assms(3), of "[]"] by (simp add: retrieveSourceContext_def)
  from query_after_retrieval [OF assms(1,2) this]
  show "\<exists>r. query env input = Inr r \<and>
           response_sources r =
             map (\<lambda>m. response_source_of
                        (source_of_match m (the (db_getDocument env (match_document_id m)))))
               (filter (\<lambda>m. truthy (match_document_id m)) matches) \<and>
           length (response_sources r) \<le> length matches"
    by (simp add: comp_def)
  show "\<forall>m\<in>set matches.
            match_metadata m = None \<or>
            (\<exists>md. match_metadata m = Some md \<and>
               md (ascii ''document_id'') \<in> {None, Some JUndefined, Some JNull, Some (JNumber 0)})
            \<longrightarrow> \<not> truthy (match_document_id m)"
    using falsy_document_ids by blast
qed

theorem query_sources_skip_matches_without_document_id_witness:
  "\<exists>r. query
          (blank_env\<lparr>vectorize_query := (\<lambda>v k. Some [match_without_document, match_of_document_3]),
             db_getDocument := (\<lambda>documentId. Some (Some \<lparr>filename = ascii ''report.txt''\<rparr>))\<rparr>)
          example_input = Inr r \<and>
        response_sources r =
          [\<lparr>source_document = ascii ''report.txt'', source_relevance = Finite 0,
            source_chunk_text = JString (ascii ''beam'')\<rparr>] \<and>
        length (response_sources r) < length [match_without_document, match_of_document_3]"
proof -
  let ?env = "blank_env\<lparr>vectorize_query := (\<lambda>v k. Some [match_without_document, match_of_document_3]),
             db_getDocument := (\<lambda>documentId. Some (Some \<lparr>filename = ascii ''report.txt''\<rparr>))\<rparr>"
  have emb: "generateEmbedding ?env (input_query example_input) =
             Inr \<lparr>embedding = [Finite 1], dimensions = 1\<rparr>"
    by (simp add: generateEmbedding_def blank_env_def)
  have search: "vectorize_query ?env (embedding \<lparr>embedding = [Finite 1], dimensions = 1\<rparr>)
                  (topK_or_default (input_topK example_input)) =
                Some [match_without_document, match_of_document_3]"
    by simp
  have lookups: "\<forall>m\<in>set [match_without_document, match_of_document_3].
           truthy (match_document_id m) \<longrightarrow> db_getDocument ?env (match_document_id m) \<noteq> None"
    by simp
  have t1: "\<not> truthy (match_document_id match_without_document)"
    by (simp add: match_document_id_def match_without_document_def)
  have t2: "truthy (match_document_id match_of_document_3)"
    by (simp add: match_document_id_def match_of_document_3_def get_property_def ascii_def)
  have "response_source_of (source_of_match match_of_document_3 (Some \<lparr>filename = ascii ''report.txt''\<rparr>))
        = \<lparr>source_document = ascii ''report.txt'', source_relevance = Finite 0,
            source_chunk_text = JString (ascii ''beam'')\<rparr>"
    by (simp add: response_source_of_def source_of_match_def src_chunk_text_def get_property_def
        match_of_document_3_def ascii_def)
  moreover obtain r where "query ?env example_input = Inr r"
    "response_sources r =
       map (\<lambda>m. response_source_of
                  (source_of_match m (the (db_getDocument ?env (match_document_id m)))))
         (filter (\<lambda>m. truthy (match_document_id m))
            [match_without_document, match_of_document_3])"
    using query_sources_skip_matches_without_document_id [OF emb search lookups]
    by blast
  ultimately show ?thesis using t1 t2 by (intro exI [of _ r]) simp
qed

section \<open>Properties of indexDocument\<close>

lemma js_join_take_empty: "js_join sep (take m [[]]) = []"
  by (cases m) simp_all

lemma chunkText_empty: "k < n \<Longrightarrow> chunkText [] n k = Some [[]]"
  apply (simp add: chunkText_def split_whitespace_def)
  apply (subst chunk_loop.simps)
  apply simp
  apply (subst chunk_loop.simps)
  apply (simp add: js_slice_def Let_def js_join_take_empty)
  done

lemma build_vectors_enumerate:
  "index + length chunks \<le> length embeddings \<Longrightarrow>
   build_vectors documentId metadata embeddings index chunks =
     Some (map (\<lambda>(i, chunk).
                 \<lparr>entry_id = chunk_vector_id documentId i,
                  entry_values = embedding (embeddings ! i),
                  entry_metadata = chunk_metadata documentId i chunk metadata\<rparr>)
            (enumerate index chunks))"
  by (induction chunks arbitrary: index) simp_all

lemma store_chunk_rows_enumerate:
  assumes "\<forall>(i, chunk)\<in>set (enumerate i0 (drop i0 chunks)).
             db_createVectorMetadata env
               \<lparr>document_id = documentId, chunk_index = i, chunk_text = chunk,
                vector_id = chunk_vector_id documentId i\<rparr>"
  shows "store_chunk_rows env documentId chunks i0 s =
         (True, s\<lparr>vector_metadata := vector_metadata s @
             map (\<lambda>(i, chunk).
                    \<lparr>document_id = documentId, chunk_index = i, chunk_text = chunk,
                     vector_id = chunk_vector_id documentId i\<rparr>)
               (enumerate i0 (drop i0 chunks))\<rparr>)"
  using assms
proof (induction env documentId chunks i0 s rule: store_chunk_rows.induct)
  case (1 env documentId chunks i s)
  show ?case
  proof (cases "i < length chunks")
    case True
    then have d: "drop i chunks = chunks ! i # drop (Suc i) chunks"
      by (simp add: Cons_nth_drop_Suc)
    let ?row = "\<lparr>document_id = documentId, chunk_index = i, chunk_text = chunks ! i,
                 vector_id = chunk_vector_id documentId i\<rparr>"
    have ok: "db_createVectorMetadata env ?row"
      using "1.prems" by (simp add: d)
    have rest: "\<forall>(j, chunk)\<in>set (enumerate (Suc i) (drop (Suc i) chunks)).
             db_createVectorMetadata env
               \<lparr>document_id = documentId, chunk_index = j, chunk_text = chunk,
                vector_id = chunk_vector_id documentId j\<rparr>"
      using "1.prems" by (simp add: d)
    have c: "createVectorMetadata env ?row s =
             (True, s\<lparr>vector_metadata := vector_metadata s @ [?row]\<rparr>)"
      using ok by (simp add: createVectorMetadata_def)
    show ?thesis
      apply (subst store_chunk_rows.simps)
      using True c "1.IH" [OF True c [symmetric] _ rest]
      apply (simp add: d)
      done
  next
    case False
    then show ?thesis by (subst store_chunk_rows.simps) simp
  qed
qed

lemma indexDocument_success:
  assumes "chunkText documentText default_chunkSize default_overlap = Some chunks"
    and "ai_embeddings env chunks = Some vs"
    and "length chunks \<le> length vs"
    and "vectors = map (\<lambda>(i, chunk).
                     \<lparr>entry_id = chunk_vector_id documentId i,
                      entry_values = vs ! i,
                      entry_metadata = chunk_metadata documentId i chunk metadata\<rparr>)
                   (enumerate 0 chunks)"
    and "rows = map (\<lambda>(i, chunk).
                  \<lparr>document_id = documentId, chunk_index = i, chunk_text = chunk,
                   vector_id = chunk_vector_id documentId i\<rparr>)
                (enumerate 0 chunks)"
    and "vectorize_insert env vectors"
    and "\<forall>row\<in>set rows. db_createVectorMetadata env row"
    and "db_updateDocumentVectorStatus env documentId (ascii ''doc_'' @ int_to_string documentId)"
  shows "indexDocument env documentId documentText metadata s =
         Some (Inr (),
               s\<lparr>vector_index := vector_index s @ vectors,
                 vector_metadata := vector_metadata s @ rows,
                 document_vector_status := document_vector_status s @
                   [(documentId, ascii ''doc_'' @ int_to_string documentId)]\<rparr>)"
proof -
  let ?embeddings = "map (\<lambda>e. \<lparr>embedding = e, dimensions = length e\<rparr>) vs"
  have emb: "generateBatchEmbeddings env chunks = Inr ?embeddings"
    using assms(2) by (simp add: generateBatchEmbeddings_def)
  have "build_vectors documentId metadata ?embeddings 0 chunks =
        Some (map (\<lambda>(i, chunk).
                 \<lparr>entry_id = chunk_vector_id documentId i,
                  entry_values = embedding (?embeddings ! i),
                  entry_metadata = chunk_metadata documentId i chunk metadata\<rparr>)
            (enumerate 0 chunks))"
    using assms(3) by (intro build_vectors_enumerate) simp
  also have "\<dots> = Some vectors"
    unfolding assms(4) using assms(3)
    by (auto simp: in_set_enumerate_eq)
  finally have built: "build_vectors documentId metadata ?embeddings 0 chunks = Some vectors" .
  have "\<forall>(i, chunk)\<in>set (enumerate 0 (drop 0 chunks)).
             db_createVectorMetadata env
               \<lparr>document_id = documentId, chunk_index = i, chunk_text = chunk,
                vector_id = chunk_vector_id documentId i\<rparr>"
    using assms(7) unfolding assms(5) by auto
  from store_chunk_rows_enumerate [OF this]
  have stored: "store_chunk_rows env documentId chunks 0 (s\<lparr>vector_index := vector_index s @ vectors\<rparr>) =
        (True, s\<lparr>vector_index := vector_index s @ vectors,
                 vector_metadata := vector_metadata s @ rows\<rparr>)"
    by (simp add: assms(5))
  show ?thesis
    using assms(1,6,8) emb built stored
    by (simp add: indexDocument_def updateDocumentVectorStatus_def)
qed

lemma words_463_wordlike: "wordlike (replicate 462 (ascii ''a'') @ [ascii ''b''])"
  unfolding wordlike_def
proof (intro conjI allI impI ballI)
  fix w c assume "w \<in> set (replicate 462 (ascii ''a'') @ [ascii ''b''])" "c \<in> set w"
  then have "c = 0x61 \<or> c = 0x62" by (auto simp: ascii_def)
  then show "\<not> is_white_space c" by (auto simp: is_white_space_def)
next
  fix j assume "0 < j \<and> Suc j < length (replicate 462 (ascii ''a'') @ [ascii ''b''])"
  then have "j < 462" by simp
  then show "(replicate 462 (ascii ''a'') @ [ascii ''b'']) ! j \<noteq> []"
    by (simp add: nth_append ascii_def)
qed

lemma split_whitespace_463_words:
  "split_whitespace text_of_463_words = replicate 462 (ascii ''a'') @ [ascii ''b'']"
  unfolding text_of_463_words_def
  by (rule split_whitespace_join [OF words_463_wordlike]) simp

lemma chunkText_463_words:
  "chunkText text_of_463_words default_chunkSize default_overlap =
     Some [text_of_463_words, ascii ''b'']"
proof -
  let ?ws = "replicate 462 (ascii ''a'') @ [ascii ''b'']"
  have w: "windows ?ws 512 462 0 = [?ws, [ascii ''b'']]"
    apply (subst windows.simps)
    apply (subst windows.simps)
    apply (subst windows.simps)
    apply simp
    done
  show ?thesis
    using chunk_loop_windows [of 50 512 ?ws 0 "[]"] w
    by (simp add: chunkText_def split_whitespace_463_words [unfolded text_of_463_words_def]
        default_chunkSize_def default_overlap_def text_of_463_words_def)
qed

lemma chunk_vector_id_5:
  "chunk_vector_id 5 0 = ascii ''doc_5_chunk_0''"
  "chunk_vector_id 5 1 = ascii ''doc_5_chunk_1''"
  "chunk_vector_id 5 (Suc 0) = ascii ''doc_5_chunk_1''"
  "int_to_string 5 = ascii ''5''"
  by (simp_all add: chunk_vector_id_def int_to_string_def nat_to_string.simps ascii_def)

text \<open>
  What a successful \<open>indexDocument\<close> writes. When the text gives the chunks
  \<open>chunks\<close>, the embedding model answers with at least as many vectors and the index
  and the database accept the writes, \<open>indexDocument\<close> succeeds; it has inserted one
  vector entry for each chunk, with the keys \<open>doc_<documentId>_chunk_0\<close> up to
  \<open>doc_<documentId>_chunk_(N-1)\<close>, and stored one row for each chunk, with the chunk
  indices \<open>0..N-1\<close>, the chunk texts and the keys of the entries. If the caller's
  metadata has no property named \<open>document_id\<close>, \<open>chunk_index\<close> or
  \<open>chunk_text\<close>, the metadata of the entry of chunk \<open>i\<close> holds the document id,
  the index \<open>i\<close>, the text of the chunk and every property of the caller's metadata.
\<close>

lemma indexDocument_entries_and_rows:
  assumes "chunkText documentText default_chunkSize default_overlap = Some chunks"
    and "ai_embeddings env chunks = Some vs"
    and "length chunks \<le> length vs"
    and "vectors = map (\<lambda>(i, chunk).
                     \<lparr>entry_id = chunk_vector_id documentId i,
                      entry_values = vs ! i,
                      entry_metadata = chunk_metadata documentId i chunk metadata\<rparr>)
                   (enumerate 0 chunks)"
    and "rows = map (\<lambda>(i, chunk).
                  \<lparr>document_id = documentId, chunk_index = i, chunk_text = chunk,
                   vector_id = chunk_vector_id documentId i\<rparr>)
                (enumerate 0 chunks)"
    and "vectorize_insert env vectors"
    and "\<forall>row\<in>set rows. db_createVectorMetadata env row"
    and "db_updateDocumentVectorStatus env documentId (ascii ''doc_'' @ int_to_string documentId)"
    and "metadata (ascii ''document_id'') = None"
    and "metadata (ascii ''chunk_index'') = None"
    and "metadata (ascii ''chunk_text'') = None"
  shows "indexDocument env documentId documentText metadata s =
           Some (Inr (),
                 s\<lparr>vector_index := vector_index s @ vectors,
                   vector_metadata := vector_metadata s @ rows,
                   document_vector_status := document_vector_status s @
                     [(documentId, ascii ''doc_'' @ int_to_string documentId)]\<rparr>) \<and>
         length vectors = length chunks \<and> length rows = length chunks \<and>
         (\<forall>i<length chunks.
            entry_id (vectors ! i) =
              ascii ''doc_'' @ int_to_string documentId @ ascii ''_chunk_'' @ nat_to_string i \<and>
            entry_values (vectors ! i) = vs ! i \<and>
            get_property (entry_metadata (vectors ! i)) (ascii ''document_id'') =
              JNumber documentId \<and>
            get_property (entry_metadata (vectors ! i)) (ascii ''chunk_index'') =
              JNumber (int i) \<and>
            get_property (entry_metadata (vectors ! i)) (ascii ''chunk_text'') =
              JString (chunks ! i) \<and>
            (\<forall>key v. metadata key = Some v \<longrightarrow> entry_metadata (vectors ! i) key = Some v) \<and>
            rows ! i =
              \<lparr>document_id = documentId, chunk_index = i, chunk_text = chunks ! i,
               vector_id = entry_id (vectors ! i)\<rparr>)"
proof (intro conjI allI impI)
  show "indexDocument env documentId documentText metadata s =
           Some (Inr (),
                 s\<lparr>vector_index := vector_index s @ vectors,
                   vector_metadata := vector_metadata s @ rows,
                   document_vector_status := document_vector_status s @
                     [(documentId, ascii ''doc_'' @ int_to_string documentId)]\<rparr>)"
    by (rule indexDocument_success [OF assms(1-8)])
  show "length vectors = length chunks" by (simp add: assms(4))
  show "length rows = length chunks" by (simp add: assms(5))
next
  fix i assume i: "i < length chunks"
  have v: "vectors ! i =
      \<lparr>entry_id = chunk_vector_id documentId i, entry_values = vs ! i,
       entry_metadata = chunk_metadata documentId i (chunks ! i) metadata\<rparr>"
    using i by (simp add: assms(4) nth_enumerate_eq)
  have r: "rows ! i =
      \<lparr>document_id = documentId, chunk_index = i, chunk_text = chunks ! i,
       vector_id = chunk_vector_id documentId i\<rparr>"
    using i by (simp add: assms(5) nth_enumerate_eq)
  show "entry_id (vectors ! i) =
          ascii ''doc_'' @ int_to_string documentId @ ascii ''_chunk_'' @ nat_to_string i"
    by (simp add: v chunk_vector_id_def)
  show "entry_values (vectors ! i) = vs ! i" by (simp add: v)
  show "get_property (entry_metadata (vectors ! i)) (ascii ''document_id'') = JNumber documentId"
    using assms(9) by (simp add: v get_property_def chunk_metadata_def map_add_def ascii_def)
  show "get_property (entry_metadata (vectors ! i)) (ascii ''chunk_index'') = JNumber (int i)"
    using assms(10) by (simp add: v get_property_def chunk_metadata_def map_add_def ascii_def)
  show "get_property (entry_metadata (vectors ! i)) (ascii ''chunk_text'') = JString (chunks ! i)"
    using assms(11) by (simp add: v get_property_def chunk_metadata_def map_add_def ascii_def)
  show "entry_metadata (vectors ! i) key = Some v" if "metadata key = Some v" for key v
    using that by (simp add: v chunk_metadata_def map_add_def)
  show "rows ! i =
          \<lparr>document_id = documentId, chunk_index = i, chunk_text = chunks ! i,
           vector_id = entry_id (vectors ! i)\<rparr>"
    by (simp add: v r)
qed

text \<open>
  Document 5 with the text of 463 words and the caller's metadata
  \<open>{filename: "a.txt"}\<close>: two entries, \<open>doc_5_chunk_0\<close> and
  \<open>doc_5_chunk_1\<close>, and two rows with the chunk indices 0 and 1.
\<close>

lemma indexDocument_entries_and_rows_example:
  "indexDocument blank_env 5 text_of_463_words
     [ascii ''filename'' \<mapsto> JString (ascii ''a.txt'')] empty_store =
     Some (Inr (),
       \<lparr>vector_index =
          [\<lparr>entry_id = ascii ''doc_5_chunk_0'', entry_values = [Finite 1],
            entry_metadata =
              [ascii ''document_id'' \<mapsto> JNumber 5,
               ascii ''chunk_index'' \<mapsto> JNumber 0,
               ascii ''chunk_text'' \<mapsto> JString text_of_463_words,
               ascii ''filename'' \<mapsto> JString (ascii ''a.txt'')]\<rparr>,
           \<lparr>entry_id = ascii ''doc_5_chunk_1'', entry_values = [Finite 1],
            entry_metadata =
              [ascii ''document_id'' \<mapsto> JNumber 5,
               ascii ''chunk_index'' \<mapsto> JNumber 1,
               ascii ''chunk_text'' \<mapsto> JString (ascii ''b''),
               ascii ''filename'' \<mapsto> JString (ascii ''a.txt'')]\<rparr>],
        vector_metadata =
          [\<lparr>document_id = 5, chunk_index = 0, chunk_text = text_of_463_words,
            vector_id = ascii ''doc_5_chunk_0''\<rparr>,
           \<lparr>document_id = 5, chunk_index = 1, chunk_text = ascii ''b'',
            vector_id = ascii ''doc_5_chunk_1''\<rparr>],
        document_vector_status = [(5, ascii ''doc_5'')]\<rparr>)"
proof -
  have emb: "ai_embeddings blank_env [text_of_463_words, ascii ''b''] =
             Some [[Finite 1], [Finite 1]]"
    by (simp add: blank_env_def)
  have md: "chunk_metadata 5 i c [ascii ''filename'' \<mapsto> JString (ascii ''a.txt'')] =
            [ascii ''document_id'' \<mapsto> JNumber 5,
             ascii ''chunk_index'' \<mapsto> JNumber (int i),
             ascii ''chunk_text'' \<mapsto> JString c,
             ascii ''filename'' \<mapsto> JString (ascii ''a.txt'')]" for i c
    by (simp add: chunk_metadata_def)
  show ?thesis
    using indexDocument_entries_and_rows
      [OF chunkText_463_words emb _ refl refl, of 5
         "[ascii ''filename'' \<mapsto> JString (ascii ''a.txt'')]" empty_store]
    by (simp add: chunk_vector_id_5 md blank_env_def empty_store_def) (simp add: ascii_def)
qed

text \<open>
  Claim C4 fails on the code where the caller's metadata has a property named like one of
  the three properties of the chunk. The object literal of \<open>indexDocument\<close> writes
  \<open>document_id\<close>, \<open>chunk_index\<close> and \<open>chunk_text\<close> first and spreads the
  caller's metadata after them, so the caller's property replaces the chunk's. Document 5,
  indexed with the text of 463 words and the caller's metadata \<open>{document_id: 7}\<close>,
  gets the entries \<open>doc_5_chunk_0\<close> and \<open>doc_5_chunk_1\<close> and two rows with
  the document id 5 and the chunk indices 0 and 1, as the claim says; but the metadata of
  both entries says \<open>document_id = 7\<close>, and \<open>retrieveSourceContext\<close>, which
  reads \<open>metadata.document_id\<close> of a match as the document to look up, reads 7 from
  a match of the entry \<open>doc_5_chunk_0\<close>. The chunk index and the chunk text, which
  the caller's metadata does not name, are stored as the claim says.
\<close>

theorem indexDocument_caller_metadata_replaces_document_id:
  "indexDocument blank_env 5 text_of_463_words caller_document_id_7 empty_store =
     Some (Inr (),
       \<lparr>vector_index =
          [\<lparr>entry_id = ascii ''doc_5_chunk_0'', entry_values = [Finite 1],
            entry_metadata = chunk_metadata 5 0 text_of_463_words caller_document_id_7\<rparr>,
           \<lparr>entry_id = ascii ''doc_5_chunk_1'', entry_values = [Finite 1],
            entry_metadata = chunk_metadata 5 1 (ascii ''b'') caller_document_id_7\<rparr>],
        vector_metadata =
          [\<lparr>document_id = 5, chunk_index = 0, chunk_text = text_of_463_words,
            vector_id = ascii ''doc_5_chunk_0''\<rparr>,
           \<lparr>document_id = 5, chunk_index = 1, chunk_text = ascii ''b'',
            vector_id = ascii ''doc_5_chunk_1''\<rparr>],
        document_vector_status = [(5, ascii ''doc_5'')]\<rparr>) \<and>
   get_property (chunk_metadata 5 0 text_of_463_words caller_document_id_7)
     (ascii ''document_id'') = JNumber 7 \<and>
   get_property (chunk_metadata 5 1 (ascii ''b'') caller_document_id_7)
     (ascii ''document_id'') = JNumber 7 \<and>
   get_property (chunk_metadata 5 1 (ascii ''b'') caller_document_id_7)
     (ascii ''chunk_index'') = JNumber 1 \<and>
   get_property (chunk_metadata 5 1 (ascii ''b'') caller_document_id_7)
     (ascii ''chunk_text'') = JString (ascii ''b'') \<and>
   match_document_id
     \<lparr>match_id = ascii ''doc_5_chunk_0'', match_score = Finite 1,
      match_metadata = Some (chunk_metadata 5 0 text_of_463_words caller_document_id_7)\<rparr> =
     JNumber 7 \<and>
   JNumber 7 \<noteq> JNumber 5"
proof -
  have emb: "ai_embeddings blank_env [text_of_463_words, ascii ''b''] =
             Some [[Finite 1], [Finite 1]]"
    by (simp add: blank_env_def)
  have run: "indexDocument blank_env 5 text_of_463_words caller_document_id_7 empty_store =
     Some (Inr (),
       \<lparr>vector_index =
          [\<lparr>entry_id = ascii ''doc_5_chunk_0'', entry_values = [Finite 1],
            entry_metadata = chunk_metadata 5 0 text_of_463_words caller_document_id_7\<rparr>,
           \<lparr>entry_id = ascii ''doc_5_chunk_1'', entry_values = [Finite 1],
            entry_metadata = chunk_metadata 5 1 (ascii ''b'') caller_document_id_7\<rparr>],
        vector_metadata =
          [\<lparr>document_id = 5, chunk_index = 0, chunk_text = text_of_463_words,
            vector_id = ascii ''doc_5_chunk_0''\<rparr>,
           \<lparr>document_id = 5, chunk_index = 1, chunk_text = ascii ''b'',
            vector_id = ascii ''doc_5_chunk_1''\<rparr>],
        document_vector_status = [(5, ascii ''doc_5'')]\<rparr>)"
    using indexDocument_success
      [OF chunkText_463_words emb _ refl refl, of 5 caller_document_id_7 empty_store]
    by (simp add: chunk_vector_id_5 blank_env_def empty_store_def) (simp add: ascii_def)
  have md: "get_property (chunk_metadata 5 0 text_of_463_words caller_document_id_7)
     (ascii ''document_id'') = JNumber 7"
   "get_property (chunk_metadata 5 1 (ascii ''b'') caller_document_id_7)
     (ascii ''document_id'') = JNumber 7"
   "get_property (chunk_metadata 5 1 (ascii ''b'') caller_document_id_7)
     (ascii ''chunk_index'') = JNumber 1"
   "get_property (chunk_metadata 5 1 (ascii ''b'') caller_document_id_7)
     (ascii ''chunk_text'') = JString (ascii ''b'')"
    by (simp_all add: get_property_def chunk_metadata_def caller_document_id_7_def ascii_def)
  show ?thesis using run md by (simp add: match_document_id_def)
qed

text \<open>
  Claim C10: the split of the empty string is the one empty word, and \<open>chunkText\<close> of
  the empty string is the one chunk \<open>""\<close>, with the default parameters and whenever
  \<open>overlap < chunkSize\<close>. So \<open>indexDocument\<close> of the empty text asks for the
  embedding of the one empty chunk (it fails if that call fails) and, when the services
  accept, inserts one vector entry and stores one row, with chunk index 0 and the empty
  chunk text.
\<close>

theorem empty_text_one_empty_chunk:
  "split_whitespace [] = [[]] \<and>
   chunkText [] default_chunkSize default_overlap = Some [[]] \<and>
   (k < n \<longrightarrow> chunkText [] n k = Some [[]]) \<and>
   (ai_embeddings env [[]] = None
    \<longrightarrow> indexDocument env documentId [] metadata s = Some (Inl IndexingFailed, s)) \<and>
   (ai_embeddings env [[]] = Some (v # vs) \<and>
    vectorize_insert env
      [\<lparr>entry_id = chunk_vector_id documentId 0, entry_values = v,
        entry_metadata = chunk_metadata documentId 0 [] metadata\<rparr>] \<and>
    db_createVectorMetadata env
      \<lparr>document_id = documentId, chunk_index = 0, chunk_text = [],
       vector_id = chunk_vector_id documentId 0\<rparr> \<and>
    db_updateDocumentVectorStatus env documentId (ascii ''doc_'' @ int_to_string documentId)
    \<longrightarrow> indexDocument env documentId [] metadata s =
          Some (Inr (),
                s\<lparr>vector_index := vector_index s @
                    [\<lparr>entry_id = chunk_vector_id documentId 0, entry_values = v,
                      entry_metadata = chunk_metadata documentId 0 [] metadata\<rparr>],
                  vector_metadata := vector_metadata s @
                    [\<lparr>document_id = documentId, chunk_index = 0, chunk_text = [],
                      vector_id = chunk_vector_id documentId 0\<rparr>],
                  document_vector_status := document_vector_status s @
                    [(documentId, ascii ''doc_'' @ int_to_string documentId)]\<rparr>))"
proof (intro conjI impI)
  show "split_whitespace [] = [[]]"
    by (simp add: split_whitespace_def)
  show d: "chunkText [] default_chunkSize default_overlap = Some [[]]"
    by (rule chunkText_empty) (simp add: default_chunkSize_def default_overlap_def)
  show "chunkText [] n k = Some [[]]" if "k < n"
    using that by (rule chunkText_empty)
  show "indexDocument env documentId [] metadata s = Some (Inl IndexingFailed, s)"
    if "ai_embeddings env [[]] = None"
    using that d by (simp add: indexDocument_def generateBatchEmbeddings_def)
  assume a: "ai_embeddings env [[]] = Some (v # vs) \<and>
    vectorize_insert env
      [\<lparr>entry_id = chunk_vector_id documentId 0, entry_values = v,
        entry_metadata = chunk_metadata documentId 0 [] metadata\<rparr>] \<and>
    db_createVectorMetadata env
      \<lparr>document_id = documentId, chunk_index = 0, chunk_text = [],
       vector_id = chunk_vector_id documentId 0\<rparr> \<and>
    db_updateDocumentVectorStatus env documentId (ascii ''doc_'' @ int_to_string documentId)"
  show "indexDocument env documentId [] metadata s =
          Some (Inr (),
                s\<lparr>vector_index := vector_index s @
                    [\<lparr>entry_id = chunk_vector_id documentId 0, entry_values = v,
                      entry_metadata = chunk_metadata documentId 0 [] metadata\<rparr>],
                  vector_metadata := vector_metadata s @
                    [\<lparr>document_id = documentId, chunk_index = 0, chunk_text = [],
                      vector_id = chunk_vector_id documentId 0\<rparr>],
                  document_vector_status := document_vector_status s @
                    [(documentId, ascii ''doc_'' @ int_to_string documentId)]\<rparr>)"
    using indexDocument_success [OF d _ _ refl refl, of env "v # vs" documentId metadata s] a
    by simp
qed

theorem empty_text_one_empty_chunk_witness:
  "(50::int) < 512 \<and> chunkText [] 512 50 = Some [[]] \<and>
   indexDocument blank_env 1 [] Map.empty empty_store =
     Some (Inr (),
       \<lparr>vector_index =
          [\<lparr>entry_id = ascii ''doc_1_chunk_0'', entry_values = [Finite 1],
            entry_metadata = chunk_metadata 1 0 [] Map.empty\<rparr>],
        vector_metadata =
          [\<lparr>document_id = 1, chunk_index = 0, chunk_text = [],
            vector_id = ascii ''doc_1_chunk_0''\<rparr>],
        document_vector_status = [(1, ascii ''doc_1'')]\<rparr>)"
proof -
  have ids: "chunk_vector_id 1 0 = ascii ''doc_1_chunk_0''" "int_to_string 1 = ascii ''1''"
    by (simp_all add: chunk_vector_id_def int_to_string_def nat_to_string.simps ascii_def)
  show ?thesis
    using empty_text_one_empty_chunk
      [where k = 50 and n = 512 and env = blank_env and v = "[Finite 1]" and vs = "[]"
         and documentId = 1 and metadata = Map.empty and s = empty_store]
    by (simp add: ids blank_env_def empty_store_def) (simp add: ascii_def)
qed

end
